theory Spec2Isabelle
  imports Main
begin

section \<open>Solidity 0.8 values: uint256, addresses, reverts\<close>

text \<open>
  The contracts are compiled with Solidity 0.8: every \<open>+\<close>, \<open>-\<close>, \<open>*\<close> on \<open>uint256\<close> is
  checked and reverts (Panic) when the result leaves \<open>0 .. 2^256 - 1\<close>, and \<open>/\<close> reverts on
  a zero divisor. A \<open>uint256\<close> is modelled as a natural number and each operation of the
  source as a checked operation that returns the error or the value. A revert undoes every
  state change of the call, so a function of the contract maps the state before the call
  to an error or to the state after it. The address \<open>address(0)\<close> is the number \<open>0\<close>.

  The sources are \<open>contracts/LaunchToken.sol\<close>, which holds the two contracts LaunchToken
  and BondingCurve, and \<open>contracts/TokenFactory.sol\<close>. Definitions carry the names of the
  source; a name that starts with an underscore there loses it here (\<open>calculateTokensOut\<close>,
  \<open>calculateFAIROut\<close>, \<open>executeGraduation\<close>) or gets a prefix or suffix where the
  plain name is taken (\<open>LaunchToken_update\<close> for \<open>_update\<close>, \<open>buyTokensFor_internal\<close> for
  \<open>_buyTokensFor\<close>).
\<close>

type_synonym address = nat

datatype error =
    Panic_overflow
  | Panic_division_by_zero
  | Not_minter
  | Minter_already_set
  | Trading_not_enabled
  | Token_graduated
  | Only_factory
  | Invalid_amount
  | Insufficient_supply_sold
  | Insufficient_balance
  | No_FAIR_calculated
  | Insufficient_reserves
  | Slippage_exceeded
  | Must_send_FAIR
  | Curve_complete
  | Insufficient_after_fees
  | No_tokens_calculated
  | Exceeds_graduation_supply
  | Already_graduated
  | Threshold_not_met
  | Invalid_router
  | ReentrancyGuardReentrantCall
  | ERC20InsufficientBalance
  | ERC20InsufficientAllowance
  | ERC20InvalidSender
  | ERC20InvalidReceiver
  | ERC20InvalidApprover
  | ERC20InvalidSpender
  | Transfer_failed
  | Call_value_not_accepted
  | Return_data_not_decoded

definition UINT256_MAX :: nat where
  "UINT256_MAX = 2 ^ 256 - 1"

definition checked_add :: "nat \<Rightarrow> nat \<Rightarrow> error + nat" where
  "checked_add a b = (if a + b \<le> UINT256_MAX then Inr (a + b) else Inl Panic_overflow)"

definition checked_sub :: "nat \<Rightarrow> nat \<Rightarrow> error + nat" where
  "checked_sub a b = (if b \<le> a then Inr (a - b) else Inl Panic_overflow)"

definition checked_mul :: "nat \<Rightarrow> nat \<Rightarrow> error + nat" where
  "checked_mul a b = (if a * b \<le> UINT256_MAX then Inr (a * b) else Inl Panic_overflow)"

definition checked_div :: "nat \<Rightarrow> nat \<Rightarrow> error + nat" where
  "checked_div a b = (if b = 0 then Inl Panic_division_by_zero else Inr (a div b))"

text \<open>Arithmetic inside an \<open>unchecked\<close> block wraps modulo \<open>2^256\<close>.\<close>

definition unchecked_add :: "nat \<Rightarrow> nat \<Rightarrow> nat" where
  "unchecked_add a b = (a + b) mod 2 ^ 256"

definition unchecked_sub :: "nat \<Rightarrow> nat \<Rightarrow> nat" where
  "unchecked_sub a b = (a + (2 ^ 256 - b mod 2 ^ 256)) mod 2 ^ 256"

text \<open>Sequencing: the rest of a function body runs only if the step before it returned.\<close>

definition and_then :: "error + 'a \<Rightarrow> ('a \<Rightarrow> error + 'b) \<Rightarrow> error + 'b" where
  "and_then m f = (case m of Inl e \<Rightarrow> Inl e | Inr x \<Rightarrow> f x)"

definition require :: "bool \<Rightarrow> error \<Rightarrow> error + unit" where
  "require b e = (if b then Inr () else Inl e)"

section \<open>LaunchToken: the ledger\<close>

text \<open>
  The storage of one LaunchToken. The metadata strings, the creator and the launch time of
  the token are written once by the constructor and read only by the metadata getters;
  they are left out.
\<close>

record ledger =
  minter :: address
  tradingEnabled :: bool
  totalSupply :: nat
  balances :: "address \<Rightarrow> nat"
  allowances :: "address \<Rightarrow> address \<Rightarrow> nat"

text \<open>
  Modelled from the spec: the base contracts ERC20 and ERC20Burnable (OpenZeppelin, imported
  by LaunchToken.sol, not among the sources). Section 4.2 of the specification gives their
  accounting: mint increases \<open>totalSupply\<close> and \<open>balances[to]\<close>, burn decreases supply and
  balance and fails if the balance is insufficient, \<open>burnFrom\<close> is a burn by a pre-approved
  spender. \<open>ERC20_update\<close> is the base \<open>_update\<close> that \<open>super._update\<close> calls: the supply
  is increased with a checked addition, balances move inside \<open>unchecked\<close> blocks.
\<close>

definition ERC20_update :: "ledger \<Rightarrow> address \<Rightarrow> address \<Rightarrow> nat \<Rightarrow> error + ledger" where
  "ERC20_update L from to value =
     and_then
       (if from = 0 then
          and_then (checked_add (totalSupply L) value) (\<lambda>t. Inr (L\<lparr>totalSupply := t\<rparr>))
        else if balances L from < value then Inl ERC20InsufficientBalance
        else Inr (L\<lparr>balances := (balances L)(from := balances L from - value)\<rparr>))
       (\<lambda>L1.
          if to = 0 then Inr (L1\<lparr>totalSupply := unchecked_sub (totalSupply L1) value\<rparr>)
          else Inr (L1\<lparr>balances := (balances L1)(to := unchecked_add (balances L1 to) value)\<rparr>))"

text \<open>
  \<open>_update\<close> of LaunchToken (lines 196-218): minting and burning always reach the base
  accounting, so do transfers from or to the minter; any other transfer needs
  \<open>tradingEnabled\<close>.
\<close>

definition LaunchToken_update :: "ledger \<Rightarrow> address \<Rightarrow> address \<Rightarrow> nat \<Rightarrow> error + ledger" where
  "LaunchToken_update L from to amount =
     (if from = 0 \<or> to = 0 then ERC20_update L from to amount
      else if from = minter L \<or> to = minter L then ERC20_update L from to amount
      else and_then (require (tradingEnabled L) Trading_not_enabled)
             (\<lambda>_. ERC20_update L from to amount))"

text \<open>
  Modelled from the spec: the internal entry points of the ERC20 base that lead to
  \<open>_update\<close> (\<open>_mint\<close>, \<open>_burn\<close>, \<open>_transfer\<close>, \<open>_approve\<close>, \<open>_spendAllowance\<close>) and its
  public functions \<open>transfer\<close>, \<open>transferFrom\<close>, \<open>approve\<close>, \<open>burn\<close>, \<open>burnFrom\<close>. Each takes
  \<open>msg.sender\<close> as its first argument where the base reads it. An allowance of
  \<open>2^256 - 1\<close> is unlimited and is not decreased.
\<close>

definition ERC20_mint :: "ledger \<Rightarrow> address \<Rightarrow> nat \<Rightarrow> error + ledger" where
  "ERC20_mint L account value =
     (if account = 0 then Inl ERC20InvalidReceiver else LaunchToken_update L 0 account value)"

definition ERC20_burn :: "ledger \<Rightarrow> address \<Rightarrow> nat \<Rightarrow> error + ledger" where
  "ERC20_burn L account value =
     (if account = 0 then Inl ERC20InvalidSender else LaunchToken_update L account 0 value)"

definition ERC20_transfer :: "ledger \<Rightarrow> address \<Rightarrow> address \<Rightarrow> nat \<Rightarrow> error + ledger" where
  "ERC20_transfer L from to value =
     (if from = 0 then Inl ERC20InvalidSender
      else if to = 0 then Inl ERC20InvalidReceiver
      else LaunchToken_update L from to value)"

definition ERC20_approve :: "ledger \<Rightarrow> address \<Rightarrow> address \<Rightarrow> nat \<Rightarrow> error + ledger" where
  "ERC20_approve L owner spender value =
     (if owner = 0 then Inl ERC20InvalidApprover
      else if spender = 0 then Inl ERC20InvalidSpender
      else Inr (L\<lparr>allowances := (allowances L)(owner := (allowances L owner)(spender := value))\<rparr>))"

definition ERC20_spendAllowance :: "ledger \<Rightarrow> address \<Rightarrow> address \<Rightarrow> nat \<Rightarrow> error + ledger" where
  "ERC20_spendAllowance L owner spender value =
     (let currentAllowance = allowances L owner spender in
      if currentAllowance < UINT256_MAX then
        (if currentAllowance < value then Inl ERC20InsufficientAllowance
         else ERC20_approve L owner spender (currentAllowance - value))
      else Inr L)"

definition transfer :: "address \<Rightarrow> address \<Rightarrow> nat \<Rightarrow> ledger \<Rightarrow> error + ledger" where
  "transfer msg_sender to value L = ERC20_transfer L msg_sender to value"

definition transferFrom :: "address \<Rightarrow> address \<Rightarrow> address \<Rightarrow> nat \<Rightarrow> ledger \<Rightarrow> error + ledger" where
  "transferFrom msg_sender from to value L =
     and_then (ERC20_spendAllowance L from msg_sender value)
       (\<lambda>L1. ERC20_transfer L1 from to value)"

definition approve :: "address \<Rightarrow> address \<Rightarrow> nat \<Rightarrow> ledger \<Rightarrow> error + ledger" where
  "approve msg_sender spender value L = ERC20_approve L msg_sender spender value"

definition burn :: "address \<Rightarrow> nat \<Rightarrow> ledger \<Rightarrow> error + ledger" where
  "burn msg_sender value L = ERC20_burn L msg_sender value"

definition burnFrom :: "address \<Rightarrow> address \<Rightarrow> nat \<Rightarrow> ledger \<Rightarrow> error + ledger" where
  "burnFrom msg_sender account value L =
     and_then (ERC20_spendAllowance L account msg_sender value)
       (\<lambda>L1. ERC20_burn L1 account value)"

text \<open>
  The functions LaunchToken itself declares (lines 104-130). \<open>setMinter\<close> has no modifier
  and never reads \<open>msg.sender\<close>; the caller is an argument of the model all the same, so
  that a statement can quantify over it.
\<close>

definition setMinter :: "address \<Rightarrow> address \<Rightarrow> ledger \<Rightarrow> error + ledger" where
  "setMinter msg_sender new_minter L =
     and_then (require (minter L = 0) Minter_already_set)
       (\<lambda>_. Inr (L\<lparr>minter := new_minter\<rparr>))"

definition enableTrading :: "address \<Rightarrow> ledger \<Rightarrow> error + ledger" where
  "enableTrading msg_sender L =
     and_then (require (msg_sender = minter L) Not_minter)
       (\<lambda>_. Inr (L\<lparr>tradingEnabled := True\<rparr>))"

definition mint :: "address \<Rightarrow> address \<Rightarrow> nat \<Rightarrow> ledger \<Rightarrow> error + ledger" where
  "mint msg_sender to amount L =
     and_then (require (msg_sender = minter L) Not_minter)
       (\<lambda>_. ERC20_mint L to amount)"

text \<open>The ledger as the constructor leaves it: no minter, trading disabled, nothing minted.\<close>

definition LaunchToken_constructor :: ledger where
  "LaunchToken_constructor =
     \<lparr>minter = 0, tradingEnabled = False, totalSupply = 0,
      balances = (\<lambda>_. 0), allowances = (\<lambda>_ _. 0)\<rparr>"

section \<open>BondingCurve: constants and state\<close>

definition ether :: nat where
  "ether = 10 ^ 18"

definition GRADUATION_THRESHOLD :: nat where
  "GRADUATION_THRESHOLD = 8050 * ether"

definition GRADUATION_SUPPLY :: nat where
  "GRADUATION_SUPPLY = 700000000 * 10 ^ 18"

definition TOTAL_SUPPLY :: nat where
  "TOTAL_SUPPLY = 1000000000 * 10 ^ 18"

definition LIQUIDITY_TOKENS :: nat where
  "LIQUIDITY_TOKENS = 300000000 * 10 ^ 18"

definition LIQUIDITY_FAIR :: nat where
  "LIQUIDITY_FAIR = 5833 * ether"

definition VIRTUAL_FAIR_RESERVES :: nat where
  "VIRTUAL_FAIR_RESERVES = 570 * ether"

definition VIRTUAL_TOKEN_RESERVES :: nat where
  "VIRTUAL_TOKEN_RESERVES = 750000000 * 10 ^ 18"

definition ANTI_DUMP_DURATION :: nat where
  "ANTI_DUMP_DURATION = 15 * 60"

definition INITIAL_SELL_FEE :: nat where
  "INITIAL_SELL_FEE = 2000"

definition FINAL_SELL_FEE :: nat where
  "FINAL_SELL_FEE = 100"

text \<open>
  What a call leaves behind besides storage: the events of the contract and the FAIR it
  sends out with \<open>payable(a).transfer(v)\<close>.
\<close>

datatype event =
    TokensPurchased address nat nat nat
  | TokensSold address nat nat nat
  | Graduated nat nat nat nat
  | PriceUpdate nat nat nat
  | Sent address nat

text \<open>
  The state a BondingCurve works on: its own storage and immutables, its FAIR balance, the
  status word of the reentrancy guard, and the storage of the LaunchToken it is bound to
  (the curve calls \<open>mint\<close>, \<open>burnFrom\<close>, \<open>enableTrading\<close>, \<open>approve\<close> and \<open>balanceOf\<close> on
  it). \<open>self\<close> is \<open>address(this)\<close>.
\<close>

record curve =
  token :: ledger
  self :: address
  factory :: address
  treasury :: address
  platformFeePercent :: nat
  launchTime :: nat
  tokensSold :: nat
  FAIRRaised :: nat
  graduated :: bool
  traderJoeRouter :: address
  balance :: nat
  entered :: bool
  emitted :: "event list"

text \<open>
  The liquidity venue is outside the repository. The \<open>try\<close> statement that calls it
  (line 760) has three outcomes. The call reverts: the \<open>catch\<close> clause runs. The call
  returns at least three words: they are decoded as the three amounts of
  \<open>addLiquidityFAIR\<close> and the \<open>returns\<close> block runs. The call comes back without a revert
  but with fewer than three words of return data, which is what an address without
  code does (the value is then transferred to it and nothing is returned): decoding
  fails in the curve itself, after the \<open>try\<close>, so no \<open>catch\<close> clause applies and the
  whole transaction reverts without data.
\<close>

datatype venue_outcome =
    Venue_reverts
  | Venue_returns nat nat nat
  | Venue_returns_too_little

text \<open>
  The environment of one call: sender, value, block time, and what the other parties do:
  which addresses accept a plain FAIR transfer (an account, or a contract whose
  \<open>receive\<close> runs within the stipend) and how the venue answers.
\<close>

record call =
  msg_sender :: address
  msg_value :: nat
  block_timestamp :: nat
  accepts :: "address \<Rightarrow> bool"
  venue :: venue_outcome

definition emit :: "event \<Rightarrow> curve \<Rightarrow> curve" where
  "emit e s = s\<lparr>emitted := emitted s @ [e]\<rparr>"

text \<open>
  \<open>payable(to).transfer(amount)\<close>: reverts when the contract holds less than \<open>amount\<close> or the
  recipient does not accept it.
\<close>

definition transfer_FAIR :: "call \<Rightarrow> address \<Rightarrow> nat \<Rightarrow> curve \<Rightarrow> error + curve" where
  "transfer_FAIR c to amount s =
     (if balance s < amount \<or> \<not> accepts c to then Inl Transfer_failed
      else Inr (emit (Sent to amount)
                  (s\<lparr>balance := (if to = self s then balance s else balance s - amount)\<rparr>)))"

text \<open>The \<open>nonReentrant\<close> modifier: the guard is taken for the body and released after it.\<close>

definition nonReentrant :: "(curve \<Rightarrow> error + curve) \<Rightarrow> curve \<Rightarrow> error + curve" where
  "nonReentrant body s =
     (if entered s then Inl ReentrancyGuardReentrantCall
      else and_then (body (s\<lparr>entered := True\<rparr>)) (\<lambda>s'. Inr (s'\<lparr>entered := False\<rparr>)))"

section \<open>BondingCurve: mathematics and views\<close>

text \<open>\<open>_calculateTokensOut\<close> (lines 549-573).\<close>

definition calculateTokensOut :: "curve \<Rightarrow> nat \<Rightarrow> error + nat" where
  "calculateTokensOut s FAIRAmount =
     and_then (checked_add VIRTUAL_FAIR_RESERVES (FAIRRaised s)) (\<lambda>currentFAIRReserve.
     and_then (checked_sub VIRTUAL_TOKEN_RESERVES (tokensSold s)) (\<lambda>currentTokenReserve.
     and_then (checked_add currentFAIRReserve FAIRAmount) (\<lambda>newFAIRReserve.
     and_then (checked_mul currentFAIRReserve currentTokenReserve) (\<lambda>k.
     and_then (checked_div k newFAIRReserve) (\<lambda>newTokenReserve.
     and_then (checked_sub currentTokenReserve newTokenReserve) (\<lambda>tokensOut.
     and_then (checked_sub GRADUATION_SUPPLY (tokensSold s)) (\<lambda>maxTokens.
     Inr (if tokensOut > maxTokens then maxTokens else tokensOut))))))))"

text \<open>\<open>_calculateFAIROut\<close> (lines 580-598).\<close>

definition calculateFAIROut :: "curve \<Rightarrow> nat \<Rightarrow> error + nat" where
  "calculateFAIROut s tokenAmount =
     and_then (checked_add VIRTUAL_FAIR_RESERVES (FAIRRaised s)) (\<lambda>currentFAIRReserve.
     and_then (checked_sub VIRTUAL_TOKEN_RESERVES (tokensSold s)) (\<lambda>currentTokenReserve.
     and_then (checked_add currentTokenReserve tokenAmount) (\<lambda>newTokenReserve.
     and_then (checked_mul currentFAIRReserve currentTokenReserve) (\<lambda>k.
     and_then (checked_div k newTokenReserve) (\<lambda>newFAIRReserve.
     checked_sub currentFAIRReserve newFAIRReserve)))))"

text \<open>\<open>getCurrentSellFee\<close> (lines 606-615).\<close>

definition getCurrentSellFee :: "call \<Rightarrow> curve \<Rightarrow> error + nat" where
  "getCurrentSellFee c s =
     and_then (checked_add (launchTime s) ANTI_DUMP_DURATION) (\<lambda>decay_end.
     if block_timestamp c \<ge> decay_end then Inr FINAL_SELL_FEE
     else
       and_then (checked_sub (block_timestamp c) (launchTime s)) (\<lambda>elapsed.
       and_then (checked_mul (INITIAL_SELL_FEE - FINAL_SELL_FEE) elapsed) (\<lambda>n.
       and_then (checked_div n ANTI_DUMP_DURATION) (\<lambda>feeReduction.
       checked_sub INITIAL_SELL_FEE feeReduction))))"

text \<open>\<open>getCurrentPrice\<close> and \<open>getMarketCap\<close> (lines 623-637).\<close>

definition getCurrentPrice :: "curve \<Rightarrow> error + nat" where
  "getCurrentPrice s =
     and_then (checked_add VIRTUAL_FAIR_RESERVES (FAIRRaised s)) (\<lambda>currentFAIRReserve.
     and_then (checked_sub VIRTUAL_TOKEN_RESERVES (tokensSold s)) (\<lambda>currentTokenReserve.
     and_then (checked_mul currentFAIRReserve (10 ^ 18)) (\<lambda>n.
     checked_div n currentTokenReserve)))"

definition getMarketCap :: "curve \<Rightarrow> error + nat" where
  "getMarketCap s =
     (if tokensSold s = 0 then Inr 0
      else and_then (getCurrentPrice s) (\<lambda>price.
           and_then (checked_mul price (tokensSold s)) (\<lambda>n.
           checked_div n (10 ^ 18))))"

section \<open>BondingCurve: graduation\<close>

text \<open>
  \<open>_executeGraduation\<close> (lines 743-783). The calls on the token are made by the curve, so
  their \<open>msg.sender\<close> is \<open>self\<close>. The arguments of the venue call are evaluated by the
  curve before the call (\<open>block.timestamp + 300\<close> is a checked addition). A call that
  carries more value than the contract holds fails like a reverting venue, whatever is
  at the router's address, and either way the \<open>catch\<close> block runs: every effect of the
  venue is undone and \<open>graduated\<close> is set back to false, while what the curve did before
  the call (trading enabled, liquidity tokens minted and approved) stays. When the venue
  returns, the model records the value that left the contract; what the venue does with
  its allowance is the venue's code. When the return data cannot be decoded the function
  fails with \<open>Return_data_not_decoded\<close>, and with it the transaction that called it.
\<close>

definition executeGraduation :: "call \<Rightarrow> curve \<Rightarrow> error + curve" where
  "executeGraduation c s =
     and_then (require (\<not> graduated s) Already_graduated) (\<lambda>_.
     and_then (require (FAIRRaised s \<ge> GRADUATION_THRESHOLD) Threshold_not_met) (\<lambda>_.
     let s1 = s\<lparr>graduated := True\<rparr> in
     and_then (enableTrading (self s1) (token s1)) (\<lambda>L1.
     let liquidityTokens = LIQUIDITY_TOKENS; liquidityFAIR = LIQUIDITY_FAIR in
     and_then (checked_sub (FAIRRaised s1) liquidityFAIR) (\<lambda>teamFAIR.
     and_then (mint (self s1) (self s1) liquidityTokens L1) (\<lambda>L2.
     and_then (approve (self s1) (traderJoeRouter s1) liquidityTokens L2) (\<lambda>L3.
     let s2 = s1\<lparr>token := L3\<rparr> in
     and_then (checked_add (block_timestamp c) 300) (\<lambda>deadline.
     case (if balance s2 < liquidityFAIR then Venue_reverts else venue c) of
       Venue_returns amountToken amountFAIR lpTokens \<Rightarrow>
         let s3 = s2\<lparr>balance := balance s2 - liquidityFAIR\<rparr> in
         and_then (if teamFAIR > 0 then transfer_FAIR c (treasury s3) teamFAIR s3 else Inr s3)
           (\<lambda>s4. Inr (emit (Graduated liquidityTokens liquidityFAIR teamFAIR lpTokens)
                        (s4\<lparr>FAIRRaised := 0\<rparr>)))
     | Venue_reverts \<Rightarrow> Inr (s2\<lparr>graduated := False\<rparr>)
     | Venue_returns_too_little \<Rightarrow> Inl Return_data_not_decoded)))))))"

section \<open>BondingCurve: trading\<close>

text \<open>
  \<open>_buyTokensFor\<close> (lines 495-532), in its two parts. \<open>purchase\<close> is the body up to
  the two events (lines 496-526): the checks, the fee, the curve, the state update, the
  mint, the fee transfer. The value of the call is already part of the balance when the
  body runs. The arguments of the events are evaluated where the source evaluates them:
  \<open>getCurrentPrice\<close> and \<open>getMarketCap\<close> read the updated state and can revert.
  \<open>buyTokensFor_internal\<close> is the whole function: the purchase, then the graduation
  check (lines 529-531).
\<close>

definition purchase :: "call \<Rightarrow> address \<Rightarrow> nat \<Rightarrow> curve \<Rightarrow> error + curve" where
  "purchase c recipient minTokensOut s =
     and_then (require (msg_value c > 0) Must_send_FAIR) (\<lambda>_.
     and_then (require (tokensSold s < GRADUATION_SUPPLY) Curve_complete) (\<lambda>_.
     and_then (checked_mul (msg_value c) (platformFeePercent s)) (\<lambda>n.
     and_then (checked_div n 10000) (\<lambda>platformFee.
     and_then (checked_sub (msg_value c) platformFee) (\<lambda>buyAmount.
     and_then (require (buyAmount > 0) Insufficient_after_fees) (\<lambda>_.
     and_then (calculateTokensOut s buyAmount) (\<lambda>tokensOut.
     and_then (require (tokensOut > 0) No_tokens_calculated) (\<lambda>_.
     and_then (require (tokensOut \<ge> minTokensOut) Slippage_exceeded) (\<lambda>_.
     and_then (checked_add (tokensSold s) tokensOut) (\<lambda>total.
     and_then (require (total \<le> GRADUATION_SUPPLY) Exceeds_graduation_supply) (\<lambda>_.
     and_then (checked_add (tokensSold s) tokensOut) (\<lambda>tokensSold'.
     and_then (checked_add (FAIRRaised s) buyAmount) (\<lambda>FAIRRaised'.
     let s1 = s\<lparr>tokensSold := tokensSold', FAIRRaised := FAIRRaised'\<rparr> in
     and_then (mint (self s1) recipient tokensOut (token s1)) (\<lambda>L.
     let s2 = s1\<lparr>token := L\<rparr> in
     and_then (if platformFee > 0 then transfer_FAIR c (treasury s2) platformFee s2 else Inr s2)
       (\<lambda>s3.
     and_then (getCurrentPrice s3) (\<lambda>newPrice.
     and_then (getMarketCap s3) (\<lambda>marketCap.
     Inr (emit (PriceUpdate (tokensSold s3) newPrice marketCap)
           (emit (TokensPurchased recipient buyAmount tokensOut newPrice) s3)))))))))))))))))))"

definition buyTokensFor_internal :: "call \<Rightarrow> address \<Rightarrow> nat \<Rightarrow> curve \<Rightarrow> error + curve" where
  "buyTokensFor_internal c recipient minTokensOut s =
     and_then (purchase c recipient minTokensOut s) (\<lambda>s4.
     if FAIRRaised s4 \<ge> GRADUATION_THRESHOLD then executeGraduation c s4 else Inr s4)"

text \<open>
  \<open>buyTokens\<close> and \<open>buyTokensFor\<close> (lines 431-443): payable, so the value is credited
  first; then the modifiers \<open>notGraduated\<close> and \<open>nonReentrant\<close> in this order.
\<close>

definition buyTokens :: "call \<Rightarrow> nat \<Rightarrow> curve \<Rightarrow> error + curve" where
  "buyTokens c minTokensOut s =
     (let s0 = s\<lparr>balance := balance s + msg_value c\<rparr> in
      and_then (require (\<not> graduated s0) Token_graduated) (\<lambda>_.
      nonReentrant (buyTokensFor_internal c (msg_sender c) minTokensOut) s0))"

definition buyTokensFor :: "call \<Rightarrow> address \<Rightarrow> nat \<Rightarrow> curve \<Rightarrow> error + curve" where
  "buyTokensFor c recipient minTokensOut s =
     (let s0 = s\<lparr>balance := balance s + msg_value c\<rparr> in
      and_then (require (\<not> graduated s0) Token_graduated) (\<lambda>_.
      nonReentrant (\<lambda>s1.
        and_then (require (msg_sender c = factory s1) Only_factory) (\<lambda>_.
        buyTokensFor_internal c recipient minTokensOut s1)) s0))"

text \<open>
  \<open>sellTokens\<close> (lines 453-486). The function is not payable: a call that carries value
  reverts without data in the function's entry, before the modifiers \<open>notGraduated\<close>
  and \<open>nonReentrant\<close> run; \<open>Call_value_not_accepted\<close> stands for that revert. The same
  holds for every other external function of the curve but \<open>buyTokens\<close>, \<open>buyTokensFor\<close>
  and \<open>receive\<close>.
\<close>

definition sellTokens :: "call \<Rightarrow> nat \<Rightarrow> nat \<Rightarrow> curve \<Rightarrow> error + curve" where
  "sellTokens c tokenAmount minFAIROut s =
     and_then (require (msg_value c = 0) Call_value_not_accepted) (\<lambda>_.
     and_then (require (\<not> graduated s) Token_graduated) (\<lambda>_.
     nonReentrant (\<lambda>s.
       and_then (require (tokenAmount > 0) Invalid_amount) (\<lambda>_.
       and_then (require (tokensSold s \<ge> tokenAmount) Insufficient_supply_sold) (\<lambda>_.
       and_then (require (balances (token s) (msg_sender c) \<ge> tokenAmount) Insufficient_balance) (\<lambda>_.
       and_then (calculateFAIROut s tokenAmount) (\<lambda>FAIROut.
       and_then (require (FAIROut > 0) No_FAIR_calculated) (\<lambda>_.
       and_then (require (FAIROut \<le> FAIRRaised s) Insufficient_reserves) (\<lambda>_.
       and_then (getCurrentSellFee c s) (\<lambda>sellFee.
       and_then (checked_mul FAIROut sellFee) (\<lambda>n.
       and_then (checked_div n 10000) (\<lambda>feeAmount.
       and_then (checked_sub FAIROut feeAmount) (\<lambda>netFAIROut.
       and_then (require (netFAIROut \<ge> minFAIROut) Slippage_exceeded) (\<lambda>_.
       and_then (checked_sub (tokensSold s) tokenAmount) (\<lambda>tokensSold'.
       and_then (checked_sub (FAIRRaised s) FAIROut) (\<lambda>FAIRRaised'.
       let s1 = s\<lparr>tokensSold := tokensSold', FAIRRaised := FAIRRaised'\<rparr> in
       and_then (burnFrom (self s1) (msg_sender c) tokenAmount (token s1)) (\<lambda>L.
       let s2 = s1\<lparr>token := L\<rparr> in
       and_then (transfer_FAIR c (msg_sender c) netFAIROut s2) (\<lambda>s3.
       and_then (if feeAmount > 0 then transfer_FAIR c (treasury s3) feeAmount s3 else Inr s3)
         (\<lambda>s4.
       let s5 = emit (TokensSold (msg_sender c) tokenAmount netFAIROut feeAmount) s4 in
       and_then (getCurrentPrice s5) (\<lambda>price.
       and_then (getMarketCap s5) (\<lambda>marketCap.
       Inr (emit (PriceUpdate (tokensSold s5) price marketCap) s5)))))))))))))))))))) s))"

section \<open>BondingCurve: previews\<close>

text \<open>
  \<open>previewBuy\<close> (lines 644-672) returns \<open>(tokensOut, newPrice, priceImpact, platformFee)\<close>,
  \<open>previewSell\<close> (lines 677-691) returns \<open>(FAIROut, netFAIROut, sellFee, feeAmount)\<close>; a
  named return value that is never assigned is zero. Both are external views, and not
  payable: the call that evaluates one carries no value. Of that call \<open>previewBuy\<close> reads
  nothing else, and \<open>previewSell\<close> the block time, through \<open>getCurrentSellFee\<close>.
\<close>

definition previewBuy :: "call \<Rightarrow> curve \<Rightarrow> nat \<Rightarrow> error + (nat \<times> nat \<times> nat \<times> nat)" where
  "previewBuy c s FAIRAmount =
     and_then (require (msg_value c = 0) Call_value_not_accepted) (\<lambda>_.
     if FAIRAmount = 0 \<or> graduated s then Inr (0, 0, 0, 0)
      else
        and_then (checked_mul FAIRAmount (platformFeePercent s)) (\<lambda>n.
        and_then (checked_div n 10000) (\<lambda>platformFee.
        and_then (checked_sub FAIRAmount platformFee) (\<lambda>buyAmount.
        if buyAmount = 0 then Inr (0, 0, 0, platformFee)
        else
          and_then (getCurrentPrice s) (\<lambda>currentPrice.
          and_then (calculateTokensOut s buyAmount) (\<lambda>tokensOut.
          if tokensOut = 0 then Inr (0, currentPrice, 0, platformFee)
          else
            and_then (checked_add VIRTUAL_FAIR_RESERVES (FAIRRaised s)) (\<lambda>r.
            and_then (checked_add r buyAmount) (\<lambda>newFAIRReserve.
            and_then (checked_sub VIRTUAL_TOKEN_RESERVES (tokensSold s)) (\<lambda>t.
            and_then (checked_sub t tokensOut) (\<lambda>newTokenReserve.
            and_then (checked_mul newFAIRReserve (10 ^ 18)) (\<lambda>m.
            and_then (checked_div m newTokenReserve) (\<lambda>newPrice.
            and_then
              (if newPrice > currentPrice then
                 and_then (checked_sub newPrice currentPrice) (\<lambda>d.
                 and_then (checked_mul d 10000) (\<lambda>e.
                 checked_div e currentPrice))
               else Inr 0) (\<lambda>priceImpact.
            and_then (checked_add (tokensSold s) tokensOut) (\<lambda>total.
            if total > GRADUATION_SUPPLY then
              and_then (checked_sub GRADUATION_SUPPLY (tokensSold s)) (\<lambda>capped.
              Inr (capped, newPrice, priceImpact, platformFee))
            else Inr (tokensOut, newPrice, priceImpact, platformFee)))))))))))))))"

definition previewSell :: "call \<Rightarrow> curve \<Rightarrow> nat \<Rightarrow> error + (nat \<times> nat \<times> nat \<times> nat)" where
  "previewSell c s tokenAmount =
     and_then (require (msg_value c = 0) Call_value_not_accepted) (\<lambda>_.
     if tokenAmount = 0 \<or> graduated s \<or> tokenAmount > tokensSold s then Inr (0, 0, 0, 0)
      else
        and_then (calculateFAIROut s tokenAmount) (\<lambda>FAIROut.
        and_then (getCurrentSellFee c s) (\<lambda>sellFee.
        and_then (checked_mul FAIROut sellFee) (\<lambda>n.
        and_then (checked_div n 10000) (\<lambda>feeAmount.
        and_then (checked_sub FAIROut feeAmount) (\<lambda>netFAIROut.
        Inr (FAIROut, netFAIROut, sellFee, feeAmount)))))))"

section \<open>BondingCurve: construction and administration\<close>

text \<open>
  The constructor (lines 395-420) for a curve deployed at address \<open>a\<close> by \<open>msg.sender\<close>
  at \<open>block.timestamp\<close>, bound to a token whose storage is \<open>L\<close>. Every branch of the
  chain-id test sets a router address; the Fuji one is \<open>router_fuji\<close>, the other two
  are the same mainnet address.
\<close>

definition router_fuji :: address where
  "router_fuji = 0xE54Ca86531e17Ef3616d22Ca28b0D458b6C89106"

definition router_mainnet :: address where
  "router_mainnet = 0x60aE616a2155Ee3d9A68541Ba4544862310933d4"

definition BondingCurve_constructor ::
  "call \<Rightarrow> nat \<Rightarrow> address \<Rightarrow> ledger \<Rightarrow> address \<Rightarrow> nat \<Rightarrow> curve" where
  "BondingCurve_constructor c chainId a L treasury_arg platformFeePercent_arg =
     \<lparr>token = L, self = a, factory = msg_sender c, treasury = treasury_arg,
      platformFeePercent = platformFeePercent_arg, launchTime = block_timestamp c,
      tokensSold = 0, FAIRRaised = 0, graduated = False,
      traderJoeRouter = (if chainId = 43113 then router_fuji
                         else if chainId = 43114 then router_mainnet else router_mainnet),
      balance = 0, entered = False, emitted = []\<rparr>"

text \<open>The functions reserved to the factory (lines 787-800) and \<open>receive\<close> (line 804).\<close>

definition setTraderJoeRouter :: "call \<Rightarrow> address \<Rightarrow> curve \<Rightarrow> error + curve" where
  "setTraderJoeRouter c router s =
     and_then (require (msg_value c = 0) Call_value_not_accepted) (\<lambda>_.
     and_then (require (msg_sender c = factory s) Only_factory) (\<lambda>_.
     and_then (require (router \<noteq> 0) Invalid_router) (\<lambda>_.
     Inr (s\<lparr>traderJoeRouter := router\<rparr>))))"

definition emergencyWithdraw :: "call \<Rightarrow> curve \<Rightarrow> error + curve" where
  "emergencyWithdraw c s =
     and_then (require (msg_value c = 0) Call_value_not_accepted) (\<lambda>_.
     and_then (require (msg_sender c = factory s) Only_factory) (\<lambda>_.
     transfer_FAIR c (treasury s) (balance s) s))"

definition forceGraduation :: "call \<Rightarrow> curve \<Rightarrow> error + curve" where
  "forceGraduation c s =
     and_then (require (msg_value c = 0) Call_value_not_accepted) (\<lambda>_.
     and_then (require (msg_sender c = factory s) Only_factory) (\<lambda>_.
     and_then (require (\<not> graduated s) Already_graduated) (\<lambda>_.
     and_then (require (FAIRRaised s \<ge> GRADUATION_THRESHOLD) Threshold_not_met) (\<lambda>_.
     executeGraduation c s))))"

definition receive :: "call \<Rightarrow> curve \<Rightarrow> error + curve" where
  "receive c s = Inr (s\<lparr>balance := balance s + msg_value c\<rparr>)"

text \<open>
  A transaction either returns, and the state is the one the function computed, or
  reverts, and the state is the one before the call.
\<close>

definition state_after :: "(curve \<Rightarrow> error + curve) \<Rightarrow> curve \<Rightarrow> curve" where
  "state_after f s = (case f s of Inl e \<Rightarrow> s | Inr s' \<Rightarrow> s')"

text \<open>
  The states a curve can be in: the state after construction, and every state that a
  call of one of its external functions returns. Between two calls of the curve anyone
  may call the token (\<open>approve\<close>, \<open>transfer\<close>, \<open>burn\<close>, \<open>setMinter\<close>) and FAIR may be forced
  into the contract; both are covered by letting the token storage and the balance
  change freely.
\<close>

inductive reachable :: "curve \<Rightarrow> bool" where
  constructed: "reachable (BondingCurve_constructor c chainId a L t p)"
| bought: "reachable s \<Longrightarrow> buyTokens c minTokensOut s = Inr s' \<Longrightarrow> reachable s'"
| bought_for: "reachable s \<Longrightarrow> buyTokensFor c recipient minTokensOut s = Inr s' \<Longrightarrow> reachable s'"
| sold: "reachable s \<Longrightarrow> sellTokens c tokenAmount minFAIROut s = Inr s' \<Longrightarrow> reachable s'"
| router_set: "reachable s \<Longrightarrow> setTraderJoeRouter c router s = Inr s' \<Longrightarrow> reachable s'"
| withdrawn: "reachable s \<Longrightarrow> emergencyWithdraw c s = Inr s' \<Longrightarrow> reachable s'"
| forced: "reachable s \<Longrightarrow> forceGraduation c s = Inr s' \<Longrightarrow> reachable s'"
| received: "reachable s \<Longrightarrow> receive c s = Inr s' \<Longrightarrow> reachable s'"
| token_called: "reachable s \<Longrightarrow> reachable (s\<lparr>token := L\<rparr>)"
| funded: "reachable s \<Longrightarrow> reachable (s\<lparr>balance := b\<rparr>)"

text \<open>A sequence of buy operations; one that reverts leaves the state as it was.\<close>

datatype buy_operation = BuyTokens call nat | BuyTokensFor call address nat

fun run_buy :: "buy_operation \<Rightarrow> curve \<Rightarrow> error + curve" where
  "run_buy (BuyTokens c minTokensOut) s = buyTokens c minTokensOut s"
| "run_buy (BuyTokensFor c recipient minTokensOut) s = buyTokensFor c recipient minTokensOut s"

fun run_buys :: "buy_operation list \<Rightarrow> curve \<Rightarrow> curve" where
  "run_buys [] s = s"
| "run_buys (b # bs) s = run_buys bs (state_after (run_buy b) s)"

text \<open>
  A call of the token contract between two calls of the curve: the token storage is the
  one the call returns, or stays as it was when the call reverts.
\<close>

definition token_call :: "(ledger \<Rightarrow> error + ledger) \<Rightarrow> curve \<Rightarrow> curve" where
  "token_call f s = (case f (token s) of Inl e \<Rightarrow> s | Inr L \<Rightarrow> s\<lparr>token := L\<rparr>)"

section \<open>A concrete deployment\<close>

text \<open>
  The deployment the examples run on: the factory (address 1000) creates a token, deploys
  its curve at address 2000 with the factory's default fee of 100 basis points and the
  treasury 3000 at time 1700000000, and makes the curve the minter, as
  \<open>createTokenWithSocials\<close> does. Every address accepts FAIR. Alice is 4000, Bob 5000.
\<close>

definition example_call :: "address \<Rightarrow> nat \<Rightarrow> nat \<Rightarrow> venue_outcome \<Rightarrow> call" where
  "example_call sender v t outcome =
     \<lparr>msg_sender = sender, msg_value = v, block_timestamp = t,
      accepts = (\<lambda>_. True), venue = outcome\<rparr>"

definition example_curve :: curve where
  "example_curve =
     token_call (setMinter 1000 2000)
       (BondingCurve_constructor (example_call 1000 0 1700000000 Venue_reverts) 43114
          2000 LaunchToken_constructor 3000 100)"

text \<open>Alice buys for 1 FAIR a minute after the launch.\<close>

definition example_after_alice :: curve where
  "example_after_alice =
     state_after (buyTokens (example_call 4000 ether 1700000060 Venue_reverts) 0) example_curve"

text \<open>
  An hour after the launch Bob approves the curve, buys for one base unit of FAIR, and
  sells what he bought in the same block.
\<close>

definition example_bob_buying :: call where
  "example_bob_buying = example_call 5000 1 1700003600 Venue_reverts"

definition example_bob_selling :: call where
  "example_bob_selling = example_call 5000 0 1700003600 Venue_reverts"

definition example_before_bob :: curve where
  "example_before_bob = token_call (approve 5000 2000 UINT256_MAX) example_after_alice"

definition example_after_bob :: curve where
  "example_after_bob = state_after (buyTokens example_bob_buying 0) example_before_bob"

definition example_after_sale :: curve where
  "example_after_sale =
     state_after (sellTokens example_bob_selling 1311231 0) example_after_bob"

text \<open>The same round trip with a payment of 1 FAIR.\<close>

definition example_bob_buying_one :: call where
  "example_bob_buying_one = example_call 5000 ether 1700003600 Venue_reverts"

definition example_after_bob_one :: curve where
  "example_after_bob_one = state_after (buyTokens example_bob_buying_one 0) example_before_bob"

definition example_after_sale_one :: curve where
  "example_after_sale_one =
     state_after (sellTokens example_bob_selling 1295871587632535559419071 0)
       example_after_bob_one"

text \<open>
  On a fresh curve Alice pays 10000 FAIR at once. In \<open>example_graduated\<close> the venue
  returns; in \<open>example_venue_failed\<close> it reverts.
\<close>

definition example_graduated :: curve where
  "example_graduated =
     state_after
       (buyTokens (example_call 4000 (10000 * ether) 1700000060
          (Venue_returns LIQUIDITY_TOKENS LIQUIDITY_FAIR 1000)) 0)
       example_curve"

definition example_venue_failed :: curve where
  "example_venue_failed =
     state_after (buyTokens (example_call 4000 (10000 * ether) 1700000060 Venue_reverts) 0)
       example_curve"

text \<open>
  The same deployment on a chain that is neither Avalanche (43114) nor Fuji (43113),
  here a development chain, 31337: the constructor gives the curve the mainnet router
  address all the same. No contract is deployed at that address there, so the venue
  call of a graduation comes back without return data.
\<close>

definition example_curve_elsewhere :: curve where
  "example_curve_elsewhere =
     token_call (setMinter 1000 2000)
       (BondingCurve_constructor (example_call 1000 0 1700000000 Venue_reverts) 31337
          2000 LaunchToken_constructor 3000 100)"

definition example_alice_without_venue :: call where
  "example_alice_without_venue =
     example_call 4000 (10000 * ether) 1700000060 Venue_returns_too_little"

text \<open>An hour after the launch Alice offers everything she bought for 1 FAIR.\<close>

definition example_alice_selling :: call where
  "example_alice_selling = example_call 4000 0 1700003600 Venue_reverts"

text \<open>
  On a fresh curve Alice pays 8060.60606060606060606 FAIR, of which 7980 FAIR reach the
  curve after the fee.
\<close>

definition example_sold_out :: curve where
  "example_sold_out =
     state_after (buyTokens (example_call 4000 8060606060606060606060 1700000060 Venue_reverts) 0)
       example_curve"

section \<open>Reading the results of the operations\<close>

lemma and_then_Inr: "and_then m f = Inr y \<longleftrightarrow> (\<exists>x. m = Inr x \<and> f x = Inr y)"
  by (cases m) (simp_all add: and_then_def)

lemma and_then_Inl: "and_then m f = Inl e \<longleftrightarrow> m = Inl e \<or> (\<exists>x. m = Inr x \<and> f x = Inl e)"
  by (cases m) (simp_all add: and_then_def)

lemma and_then_simps: "and_then (Inr x) f = f x" "and_then (Inl e) f = Inl e"
  by (simp_all add: and_then_def)

lemma require_Inr: "require b e = Inr u \<longleftrightarrow> b"
  by (simp add: require_def)

lemma require_Inl: "require b e = Inl e' \<longleftrightarrow> \<not> b \<and> e' = e"
  by (auto simp add: require_def)

lemma require_simps: "require True e = Inr ()" "require False e = Inl e"
  by (simp_all add: require_def)

lemma checked_add_Inr: "checked_add a b = Inr r \<longleftrightarrow> a + b \<le> UINT256_MAX \<and> r = a + b"
  by (auto simp: checked_add_def)

lemma checked_sub_Inr: "checked_sub a b = Inr r \<longleftrightarrow> b \<le> a \<and> r = a - b"
  by (auto simp: checked_sub_def)

lemma checked_mul_Inr: "checked_mul a b = Inr r \<longleftrightarrow> a * b \<le> UINT256_MAX \<and> r = a * b"
  by (auto simp: checked_mul_def)

lemma checked_div_Inr: "checked_div a b = Inr r \<longleftrightarrow> b \<noteq> 0 \<and> r = a div b"
  by (auto simp: checked_div_def)

lemmas step_Inr = and_then_Inr require_Inr checked_add_Inr checked_sub_Inr checked_mul_Inr
  checked_div_Inr

lemma transfer_FAIR_Inr:
  "transfer_FAIR c to amount s = Inr s' \<longleftrightarrow>
     amount \<le> balance s \<and> accepts c to \<and>
     s' = s\<lparr>balance := (if to = self s then balance s else balance s - amount),
            emitted := emitted s @ [Sent to amount]\<rparr>"
  by (auto simp: transfer_FAIR_def emit_def)

lemma mint_Inr:
  "mint sender to amount L = Inr L' \<longleftrightarrow>
     sender = minter L \<and> to \<noteq> 0 \<and> totalSupply L + amount \<le> UINT256_MAX \<and>
     L' = L\<lparr>totalSupply := totalSupply L + amount,
            balances := (balances L)(to := unchecked_add (balances L to) amount)\<rparr>"
  by (auto simp: mint_def ERC20_mint_def LaunchToken_update_def ERC20_update_def step_Inr)

lemma curve_quotient_le: "(R * T) div (R + a) \<le> (T::nat)"
proof (cases "R + a = 0")
  case True
  then show ?thesis by simp
next
  case False
  have "(R * T) div (R + a) \<le> ((R + a) * T) div (R + a)"
    by (rule div_le_mono) (simp add: add_mult_distrib)
  with False show ?thesis by simp
qed

lemma cap_le_virtual: "GRADUATION_SUPPLY \<le> VIRTUAL_TOKEN_RESERVES"
  by (simp add: GRADUATION_SUPPLY_def VIRTUAL_TOKEN_RESERVES_def)

lemma virtual_minus_cap: "VIRTUAL_TOKEN_RESERVES - GRADUATION_SUPPLY = 50000000 * 10 ^ 18"
  by (simp add: GRADUATION_SUPPLY_def VIRTUAL_TOKEN_RESERVES_def)

lemma calculateTokensOut_Inr:
  "calculateTokensOut s a = Inr t \<longleftrightarrow>
     VIRTUAL_FAIR_RESERVES + FAIRRaised s + a \<le> UINT256_MAX \<and>
     tokensSold s \<le> GRADUATION_SUPPLY \<and>
     (VIRTUAL_FAIR_RESERVES + FAIRRaised s) * (VIRTUAL_TOKEN_RESERVES - tokensSold s) \<le> UINT256_MAX \<and>
     VIRTUAL_FAIR_RESERVES + FAIRRaised s + a \<noteq> 0 \<and>
     t = min (VIRTUAL_TOKEN_RESERVES - tokensSold s
               - (VIRTUAL_FAIR_RESERVES + FAIRRaised s) * (VIRTUAL_TOKEN_RESERVES - tokensSold s)
                   div (VIRTUAL_FAIR_RESERVES + FAIRRaised s + a))
             (GRADUATION_SUPPLY - tokensSold s)"
  using cap_le_virtual
    curve_quotient_le [of "VIRTUAL_FAIR_RESERVES + FAIRRaised s" "VIRTUAL_TOKEN_RESERVES - tokensSold s" a]
  by (auto simp: calculateTokensOut_def step_Inr min_def)

lemma calculateFAIROut_Inr:
  "calculateFAIROut s n = Inr r \<longleftrightarrow>
     VIRTUAL_FAIR_RESERVES + FAIRRaised s \<le> UINT256_MAX \<and>
     tokensSold s \<le> VIRTUAL_TOKEN_RESERVES \<and>
     VIRTUAL_TOKEN_RESERVES - tokensSold s + n \<le> UINT256_MAX \<and>
     (VIRTUAL_FAIR_RESERVES + FAIRRaised s) * (VIRTUAL_TOKEN_RESERVES - tokensSold s) \<le> UINT256_MAX \<and>
     VIRTUAL_TOKEN_RESERVES - tokensSold s + n \<noteq> 0 \<and>
     r = VIRTUAL_FAIR_RESERVES + FAIRRaised s
           - (VIRTUAL_FAIR_RESERVES + FAIRRaised s) * (VIRTUAL_TOKEN_RESERVES - tokensSold s)
               div (VIRTUAL_TOKEN_RESERVES - tokensSold s + n)"
  using curve_quotient_le [of "VIRTUAL_TOKEN_RESERVES - tokensSold s" "VIRTUAL_FAIR_RESERVES + FAIRRaised s" n]
  by (auto simp: calculateFAIROut_def step_Inr mult.commute)

lemma getCurrentPrice_Inr:
  "getCurrentPrice s = Inr p \<longleftrightarrow>
     tokensSold s < VIRTUAL_TOKEN_RESERVES \<and>
     (VIRTUAL_FAIR_RESERVES + FAIRRaised s) * 10 ^ 18 \<le> UINT256_MAX \<and>
     p = (VIRTUAL_FAIR_RESERVES + FAIRRaised s) * 10 ^ 18 div (VIRTUAL_TOKEN_RESERVES - tokensSold s)"
proof -
  have "x \<le> UINT256_MAX" if "x * 10 ^ 18 \<le> UINT256_MAX" for x :: nat
  proof -
    have "x * 1 \<le> x * 10 ^ 18" by (rule mult_le_mono2) simp
    with that show ?thesis by simp
  qed
  then show ?thesis
    by (auto simp: getCurrentPrice_def step_Inr)
qed

lemma getCurrentSellFee_value:
  assumes "launchTime s \<le> block_timestamp c"
    and "launchTime s + ANTI_DUMP_DURATION \<le> UINT256_MAX"
  shows "getCurrentSellFee c s =
           Inr (if ANTI_DUMP_DURATION \<le> block_timestamp c - launchTime s then FINAL_SELL_FEE
                else INITIAL_SELL_FEE
                     - (INITIAL_SELL_FEE - FINAL_SELL_FEE) * (block_timestamp c - launchTime s)
                         div ANTI_DUMP_DURATION)"
proof (cases "ANTI_DUMP_DURATION \<le> block_timestamp c - launchTime s")
  case True
  with assms have "launchTime s + ANTI_DUMP_DURATION \<le> block_timestamp c"
    by linarith
  with assms True show ?thesis
    by (simp add: getCurrentSellFee_def checked_add_def and_then_def)
next
  case False
  then have e: "block_timestamp c - launchTime s < 900"
    by (simp add: ANTI_DUMP_DURATION_def)
  then have "1900 * (block_timestamp c - launchTime s) \<le> UINT256_MAX"
    by (simp add: UINT256_MAX_def)
  moreover from e have "1900 * (block_timestamp c - launchTime s) div 900 \<le> 2000"
    by simp
  ultimately show ?thesis
    using assms False
    by (simp add: getCurrentSellFee_def checked_add_def checked_sub_def checked_mul_def
        checked_div_def and_then_def ANTI_DUMP_DURATION_def INITIAL_SELL_FEE_def FINAL_SELL_FEE_def)
qed

lemma getCurrentSellFee_range:
  assumes "getCurrentSellFee c s = Inr f"
  shows "FINAL_SELL_FEE \<le> f \<and> f \<le> INITIAL_SELL_FEE"
proof -
  from assms have lt: "launchTime s + ANTI_DUMP_DURATION \<le> UINT256_MAX"
    by (auto simp: getCurrentSellFee_def step_Inr)
  show ?thesis
  proof (cases "launchTime s + ANTI_DUMP_DURATION \<le> block_timestamp c")
    case True
    with assms lt show ?thesis
      by (auto simp: getCurrentSellFee_def step_Inr INITIAL_SELL_FEE_def FINAL_SELL_FEE_def)
  next
    case False
    with assms lt have le: "launchTime s \<le> block_timestamp c"
      by (auto simp: getCurrentSellFee_def step_Inr)
    from False le have "block_timestamp c - launchTime s < 900"
      by (simp add: ANTI_DUMP_DURATION_def)
    then have "1900 * (block_timestamp c - launchTime s) div 900 \<le> 1900"
      by simp
    with assms getCurrentSellFee_value [OF le lt] False show ?thesis
      by (auto simp: ANTI_DUMP_DURATION_def INITIAL_SELL_FEE_def FINAL_SELL_FEE_def)
  qed
qed

lemma and_thenE:
  assumes "and_then m f = Inr y"
  obtains x where "m = Inr x" and "f x = Inr y"
  using assms by (auto simp: and_then_Inr)

lemma getCurrentPrice_frame:
  "getCurrentPrice (s\<lparr>token := L\<rparr>) = getCurrentPrice s"
  "getCurrentPrice (s\<lparr>balance := b\<rparr>) = getCurrentPrice s"
  "getCurrentPrice (s\<lparr>emitted := es\<rparr>) = getCurrentPrice s"
  "getCurrentPrice (s\<lparr>entered := e\<rparr>) = getCurrentPrice s"
  "getCurrentPrice (s\<lparr>graduated := g\<rparr>) = getCurrentPrice s"
  by (simp_all add: getCurrentPrice_def)

lemma getMarketCap_frame:
  "getMarketCap (s\<lparr>token := L\<rparr>) = getMarketCap s"
  "getMarketCap (s\<lparr>balance := b\<rparr>) = getMarketCap s"
  "getMarketCap (s\<lparr>emitted := es\<rparr>) = getMarketCap s"
  "getMarketCap (s\<lparr>entered := e\<rparr>) = getMarketCap s"
  "getMarketCap (s\<lparr>graduated := g\<rparr>) = getMarketCap s"
  by (simp_all add: getMarketCap_def getCurrentPrice_def)

lemma calculateTokensOut_frame:
  "calculateTokensOut (s\<lparr>token := L\<rparr>) = calculateTokensOut s"
  "calculateTokensOut (s\<lparr>balance := b\<rparr>) = calculateTokensOut s"
  "calculateTokensOut (s\<lparr>emitted := es\<rparr>) = calculateTokensOut s"
  "calculateTokensOut (s\<lparr>entered := e\<rparr>) = calculateTokensOut s"
  "calculateTokensOut (s\<lparr>graduated := g\<rparr>) = calculateTokensOut s"
  by (simp_all add: calculateTokensOut_def fun_eq_iff)

lemma calculateFAIROut_frame:
  "calculateFAIROut (s\<lparr>token := L\<rparr>) = calculateFAIROut s"
  "calculateFAIROut (s\<lparr>balance := b\<rparr>) = calculateFAIROut s"
  "calculateFAIROut (s\<lparr>emitted := es\<rparr>) = calculateFAIROut s"
  "calculateFAIROut (s\<lparr>entered := e\<rparr>) = calculateFAIROut s"
  "calculateFAIROut (s\<lparr>graduated := g\<rparr>) = calculateFAIROut s"
  by (simp_all add: calculateFAIROut_def fun_eq_iff)

lemma getCurrentSellFee_frame:
  "getCurrentSellFee c (s\<lparr>token := L\<rparr>) = getCurrentSellFee c s"
  "getCurrentSellFee c (s\<lparr>balance := b\<rparr>) = getCurrentSellFee c s"
  "getCurrentSellFee c (s\<lparr>emitted := es\<rparr>) = getCurrentSellFee c s"
  "getCurrentSellFee c (s\<lparr>entered := e\<rparr>) = getCurrentSellFee c s"
  "getCurrentSellFee c (s\<lparr>graduated := g\<rparr>) = getCurrentSellFee c s"
  "getCurrentSellFee c (s\<lparr>tokensSold := n\<rparr>) = getCurrentSellFee c s"
  "getCurrentSellFee c (s\<lparr>FAIRRaised := n\<rparr>) = getCurrentSellFee c s"
  by (simp_all add: getCurrentSellFee_def cong: if_cong)

lemmas frame = getCurrentPrice_frame getMarketCap_frame calculateTokensOut_frame
  calculateFAIROut_frame getCurrentSellFee_frame

lemma purchase_Inr:
  assumes "purchase c r m s = Inr s4"
  shows "\<exists>n platformFee buyAmount tokensOut newPrice marketCap.
           0 < msg_value c \<and> tokensSold s < GRADUATION_SUPPLY
         \<and> checked_mul (msg_value c) (platformFeePercent s) = Inr n
         \<and> checked_div n 10000 = Inr platformFee
         \<and> checked_sub (msg_value c) platformFee = Inr buyAmount
         \<and> 0 < buyAmount
         \<and> calculateTokensOut s buyAmount = Inr tokensOut
         \<and> 0 < tokensOut \<and> m \<le> tokensOut
         \<and> tokensSold s + tokensOut \<le> GRADUATION_SUPPLY
         \<and> tokensSold s + tokensOut \<le> UINT256_MAX
         \<and> FAIRRaised s + buyAmount \<le> UINT256_MAX
         \<and> self s = minter (token s) \<and> r \<noteq> 0
         \<and> totalSupply (token s) + tokensOut \<le> UINT256_MAX
         \<and> (0 < platformFee \<longrightarrow> platformFee \<le> balance s \<and> accepts c (treasury s))
         \<and> getCurrentPrice (s\<lparr>tokensSold := tokensSold s + tokensOut,
                                 FAIRRaised := FAIRRaised s + buyAmount\<rparr>) = Inr newPrice
         \<and> s4 = s\<lparr>tokensSold := tokensSold s + tokensOut,
                   FAIRRaised := FAIRRaised s + buyAmount,
                   token := (token s)\<lparr>totalSupply := totalSupply (token s) + tokensOut,
                                      balances := (balances (token s))
                                        (r := unchecked_add (balances (token s) r) tokensOut)\<rparr>,
                   balance := (if 0 < platformFee \<and> treasury s \<noteq> self s
                               then balance s - platformFee else balance s),
                   emitted := emitted s
                     @ (if 0 < platformFee then [Sent (treasury s) platformFee] else [])
                     @ [TokensPurchased r buyAmount tokensOut newPrice,
                        PriceUpdate (tokensSold s + tokensOut) newPrice marketCap]\<rparr>"
  using assms unfolding purchase_def Let_def
  apply (elim and_thenE)
  apply (clarsimp simp: require_Inr checked_add_Inr mint_Inr transfer_FAIR_Inr emit_def frame
      split: if_split_asm)
   apply blast+
  done

lemma approve_Inr:
  "approve sender spender value L = Inr L' \<longleftrightarrow>
     sender \<noteq> 0 \<and> spender \<noteq> 0 \<and>
     L' = L\<lparr>allowances := (allowances L)(sender := (allowances L sender)(spender := value))\<rparr>"
  by (auto simp: approve_def ERC20_approve_def)

lemma enableTrading_Inr:
  "enableTrading sender L = Inr L' \<longleftrightarrow> sender = minter L \<and> L' = L\<lparr>tradingEnabled := True\<rparr>"
  by (auto simp: enableTrading_def step_Inr)

lemma threshold_covers_liquidity: "LIQUIDITY_FAIR \<le> GRADUATION_THRESHOLD"
  by (simp add: LIQUIDITY_FAIR_def GRADUATION_THRESHOLD_def)

text \<open>What a graduation attempt leaves when the venue call fails.\<close>

lemma executeGraduation_venue_fails:
  assumes "venue c = Venue_reverts \<or> balance s < LIQUIDITY_FAIR"
  shows "executeGraduation c s = Inr s' \<longleftrightarrow>
           \<not> graduated s \<and> GRADUATION_THRESHOLD \<le> FAIRRaised s
         \<and> self s = minter (token s) \<and> self s \<noteq> 0 \<and> traderJoeRouter s \<noteq> 0
         \<and> totalSupply (token s) + LIQUIDITY_TOKENS \<le> UINT256_MAX
         \<and> block_timestamp c + 300 \<le> UINT256_MAX
         \<and> s' = s\<lparr>token := (token s)
                    \<lparr>tradingEnabled := True,
                     totalSupply := totalSupply (token s) + LIQUIDITY_TOKENS,
                     balances := (balances (token s))
                       (self s := unchecked_add (balances (token s) (self s)) LIQUIDITY_TOKENS),
                     allowances := (allowances (token s))
                       (self s := (allowances (token s) (self s))
                          (traderJoeRouter s := LIQUIDITY_TOKENS))\<rparr>\<rparr>"
proof -
  have v: "(if balance s < LIQUIDITY_FAIR then Venue_reverts else venue c) = Venue_reverts"
    using assms by auto
  show ?thesis
    using threshold_covers_liquidity
    unfolding executeGraduation_def Let_def
    by (auto simp: v step_Inr enableTrading_Inr mint_Inr approve_Inr)
qed

lemma executeGraduation_tokensSold:
  assumes "executeGraduation c s = Inr s'"
  shows "tokensSold s' = tokensSold s"
  using assms unfolding executeGraduation_def Let_def
  apply (elim and_thenE)
  apply (clarsimp simp: require_Inr and_then_Inr transfer_FAIR_Inr emit_def
      split: venue_outcome.splits if_split_asm)
  done

lemma buyTokensFor_internal_tokensSold:
  assumes "buyTokensFor_internal c r m s = Inr s'"
  shows "tokensSold s' \<le> GRADUATION_SUPPLY"
proof -
  from assms obtain s4 where p: "purchase c r m s = Inr s4"
    and g: "(if GRADUATION_THRESHOLD \<le> FAIRRaised s4 then executeGraduation c s4 else Inr s4) = Inr s'"
    unfolding buyTokensFor_internal_def by (rule and_thenE)
  from purchase_Inr [OF p] have "tokensSold s4 \<le> GRADUATION_SUPPLY"
    by auto
  moreover from g have "tokensSold s' = tokensSold s4"
    by (auto dest: executeGraduation_tokensSold split: if_split_asm)
  ultimately show ?thesis by simp
qed

lemma nonReentrant_Inr:
  "nonReentrant body s = Inr s' \<longleftrightarrow>
     \<not> entered s \<and> (\<exists>s1. body (s\<lparr>entered := True\<rparr>) = Inr s1 \<and> s' = s1\<lparr>entered := False\<rparr>)"
  by (auto simp: nonReentrant_def and_then_Inr)

lemma buyTokens_Inr:
  "buyTokens c m s = Inr s' \<longleftrightarrow>
     \<not> graduated s \<and> \<not> entered s \<and>
     (\<exists>s1. buyTokensFor_internal c (msg_sender c) m
             (s\<lparr>balance := balance s + msg_value c, entered := True\<rparr>) = Inr s1
           \<and> s' = s1\<lparr>entered := False\<rparr>)"
  by (auto simp: buyTokens_def Let_def and_then_Inr require_Inr nonReentrant_Inr)

lemma buyTokensFor_Inr:
  "buyTokensFor c r m s = Inr s' \<longleftrightarrow>
     \<not> graduated s \<and> \<not> entered s \<and> msg_sender c = factory s \<and>
     (\<exists>s1. buyTokensFor_internal c r m
             (s\<lparr>balance := balance s + msg_value c, entered := True\<rparr>) = Inr s1
           \<and> s' = s1\<lparr>entered := False\<rparr>)"
  by (auto simp: buyTokensFor_def Let_def and_then_Inr require_Inr nonReentrant_Inr)

lemma buyTokens_tokensSold:
  "buyTokens c m s = Inr s' \<Longrightarrow> tokensSold s' \<le> GRADUATION_SUPPLY"
  by (auto simp: buyTokens_Inr dest: buyTokensFor_internal_tokensSold)

lemma buyTokensFor_tokensSold:
  "buyTokensFor c r m s = Inr s' \<Longrightarrow> tokensSold s' \<le> GRADUATION_SUPPLY"
  by (auto simp: buyTokensFor_Inr dest: buyTokensFor_internal_tokensSold)

lemma burnFrom_Inr:
  "burnFrom sender account value L = Inr L' \<longleftrightarrow>
     account \<noteq> 0 \<and> value \<le> balances L account \<and>
     (allowances L account sender < UINT256_MAX \<longrightarrow>
        value \<le> allowances L account sender \<and> sender \<noteq> 0) \<and>
     L' = L\<lparr>allowances :=
               (if allowances L account sender < UINT256_MAX
                then (allowances L)(account := (allowances L account)
                       (sender := allowances L account sender - value))
                else allowances L),
             balances := (balances L)(account := balances L account - value),
             totalSupply := unchecked_sub (totalSupply L) value\<rparr>"
  by (auto simp: burnFrom_def ERC20_spendAllowance_def ERC20_approve_def ERC20_burn_def
      LaunchToken_update_def ERC20_update_def and_then_Inr Let_def)

lemma sellTokens_Inr:
  assumes "sellTokens c n m s = Inr s'"
  shows "\<exists>FAIROut sellFee k feeAmount netFAIROut L price marketCap.
           msg_value c = 0 \<and> \<not> graduated s \<and> \<not> entered s
         \<and> 0 < n \<and> n \<le> tokensSold s \<and> n \<le> balances (token s) (msg_sender c)
         \<and> calculateFAIROut s n = Inr FAIROut
         \<and> 0 < FAIROut \<and> FAIROut \<le> FAIRRaised s
         \<and> getCurrentSellFee c s = Inr sellFee
         \<and> checked_mul FAIROut sellFee = Inr k
         \<and> checked_div k 10000 = Inr feeAmount
         \<and> checked_sub FAIROut feeAmount = Inr netFAIROut
         \<and> m \<le> netFAIROut
         \<and> burnFrom (self s) (msg_sender c) n (token s) = Inr L
         \<and> netFAIROut \<le> balance s \<and> accepts c (msg_sender c)
         \<and> tokensSold s' = tokensSold s - n
         \<and> FAIRRaised s' = FAIRRaised s - FAIROut
         \<and> token s' = L
         \<and> \<not> graduated s' \<and> \<not> entered s'
         \<and> balance s' \<le> balance s
         \<and> self s' = self s \<and> factory s' = factory s \<and> treasury s' = treasury s
         \<and> platformFeePercent s' = platformFeePercent s \<and> launchTime s' = launchTime s
         \<and> traderJoeRouter s' = traderJoeRouter s
         \<and> emitted s' = emitted s
              @ Sent (msg_sender c) netFAIROut
              # (if 0 < feeAmount then [Sent (treasury s) feeAmount] else [])
              @ [TokensSold (msg_sender c) n netFAIROut feeAmount,
                 PriceUpdate (tokensSold s - n) price marketCap]"
  using assms unfolding sellTokens_def
  apply (elim and_thenE)
  apply (simp only: nonReentrant_Inr require_Inr)
  apply (elim exE conjE)
  apply (unfold Let_def)
  apply (elim and_thenE)
  apply (clarsimp simp: require_Inr checked_sub_Inr transfer_FAIR_Inr emit_def frame
      split: if_split_asm)
  apply arith
  done

lemma sellTokens_tokensSold:
  "sellTokens c n m s = Inr s' \<Longrightarrow> tokensSold s' \<le> tokensSold s"
  by (drule sellTokens_Inr) auto

lemma transfer_FAIR_tokensSold:
  "transfer_FAIR c to amount s = Inr s' \<Longrightarrow> tokensSold s' = tokensSold s"
  by (auto simp: transfer_FAIR_Inr)

lemma reachable_tokensSold:
  assumes "reachable s"
  shows "tokensSold s \<le> GRADUATION_SUPPLY"
  using assms
proof (induction rule: reachable.induct)
  case (constructed c chainId a L t p)
  show ?case by (simp add: BondingCurve_constructor_def)
next
  case (bought s c minTokensOut s')
  then show ?case by (simp add: buyTokens_tokensSold)
next
  case (bought_for s c recipient minTokensOut s')
  then show ?case by (simp add: buyTokensFor_tokensSold)
next
  case (sold s c tokenAmount minFAIROut s')
  then show ?case using sellTokens_tokensSold [of c tokenAmount minFAIROut s s'] by simp
next
  case (router_set s c router s')
  then show ?case by (auto simp: setTraderJoeRouter_def step_Inr)
next
  case (withdrawn s c s')
  then show ?case by (auto simp: emergencyWithdraw_def step_Inr dest: transfer_FAIR_tokensSold)
next
  case (forced s c s')
  then show ?case by (auto simp: forceGraduation_def step_Inr dest: executeGraduation_tokensSold)
next
  case (received s c s')
  then show ?case by (auto simp: receive_def)
next
  case (token_called s L)
  then show ?case by simp
next
  case (funded s b)
  then show ?case by simp
qed

lemma state_after_reachable:
  assumes "reachable s"
  shows "reachable (state_after (run_buy b) s)"
proof (cases "run_buy b s")
  case (Inl e)
  with assms show ?thesis by (simp add: state_after_def)
next
  case (Inr s')
  with assms have "reachable s'"
    by (cases b) (auto intro: reachable.bought reachable.bought_for)
  with Inr show ?thesis by (simp add: state_after_def)
qed

lemma run_buys_reachable:
  "reachable s \<Longrightarrow> reachable (run_buys bs s)"
  by (induction bs arbitrary: s) (simp_all add: state_after_reachable)

lemma unchecked_add_small: "a + b \<le> UINT256_MAX \<Longrightarrow> unchecked_add a b = a + b"
  by (simp add: unchecked_add_def UINT256_MAX_def)

lemma executeGraduation_frame:
  assumes "executeGraduation c s = Inr s'"
  shows "tokensSold s' = tokensSold s
       \<and> (graduated s' \<or> FAIRRaised s' = FAIRRaised s)
       \<and> self s' = self s \<and> treasury s' = treasury s
       \<and> platformFeePercent s' = platformFeePercent s \<and> launchTime s' = launchTime s
       \<and> (\<exists>es. emitted s' = emitted s @ es)"
  using assms unfolding executeGraduation_def Let_def
  apply (elim and_thenE)
  apply (clarsimp simp: require_Inr and_then_Inr transfer_FAIR_Inr emit_def
      split: venue_outcome.splits if_split_asm)
  done

text \<open>
  A graduation attempt mints to the curve alone: the holding of any other account is
  what it was.
\<close>

lemma executeGraduation_holdings:
  assumes "executeGraduation c s = Inr s'" and "a \<noteq> self s"
  shows "balances (token s') a = balances (token s) a"
  using assms unfolding executeGraduation_def Let_def
  apply (elim and_thenE)
  apply (clarsimp simp: require_Inr and_then_Inr transfer_FAIR_Inr emit_def enableTrading_Inr
      mint_Inr approve_Inr split: venue_outcome.splits if_split_asm)
  done

text \<open>
  With return data that cannot be decoded and a balance that covers the value of the
  call, no graduation attempt returns.
\<close>

lemma executeGraduation_too_little:
  assumes "venue c = Venue_returns_too_little" and "LIQUIDITY_FAIR \<le> balance s"
  shows "\<exists>e. executeGraduation c s = Inl e"
  using assms unfolding executeGraduation_def Let_def
  by (auto simp: and_then_def split: sum.splits)

lemma getCurrentPrice_entry:
  "getCurrentPrice (s\<lparr>balance := b, entered := e, tokensSold := t, FAIRRaised := f\<rparr>)
     = getCurrentPrice (s\<lparr>tokensSold := t, FAIRRaised := f\<rparr>)"
  by (simp add: getCurrentPrice_def)

text \<open>The amounts of a buy that returns.\<close>

lemma buyTokens_amounts:
  assumes "buyTokens c m s = Inr s'"
  shows "\<exists>n platformFee buyAmount tokensOut newPrice L.
           \<not> graduated s \<and> 0 < msg_value c \<and> tokensSold s < GRADUATION_SUPPLY
         \<and> checked_mul (msg_value c) (platformFeePercent s) = Inr n
         \<and> checked_div n 10000 = Inr platformFee
         \<and> checked_sub (msg_value c) platformFee = Inr buyAmount
         \<and> 0 < buyAmount
         \<and> calculateTokensOut s buyAmount = Inr tokensOut
         \<and> 0 < tokensOut \<and> m \<le> tokensOut
         \<and> tokensSold s + tokensOut \<le> GRADUATION_SUPPLY
         \<and> getCurrentPrice (s\<lparr>tokensSold := tokensSold s + tokensOut,
                                 FAIRRaised := FAIRRaised s + buyAmount\<rparr>) = Inr newPrice
         \<and> mint (self s) (msg_sender c) tokensOut (token s) = Inr L
         \<and> tokensSold s' = tokensSold s + tokensOut
         \<and> (graduated s' \<or> FAIRRaised s' = FAIRRaised s + buyAmount)
         \<and> platformFeePercent s' = platformFeePercent s \<and> launchTime s' = launchTime s
         \<and> (msg_sender c \<noteq> self s \<longrightarrow>
              balances (token s') (msg_sender c) = balances L (msg_sender c))
         \<and> TokensPurchased (msg_sender c) buyAmount tokensOut newPrice \<in> set (emitted s')"
proof -
  let ?s0 = "s\<lparr>balance := balance s + msg_value c, entered := True\<rparr>"
  from assms obtain s1 where ng: "\<not> graduated s"
    and i: "buyTokensFor_internal c (msg_sender c) m ?s0 = Inr s1"
    and s': "s' = s1\<lparr>entered := False\<rparr>"
    by (auto simp: buyTokens_Inr)
  from i obtain s4 where p: "purchase c (msg_sender c) m ?s0 = Inr s4"
    and g: "(if GRADUATION_THRESHOLD \<le> FAIRRaised s4 then executeGraduation c s4 else Inr s4) = Inr s1"
    unfolding buyTokensFor_internal_def by (rule and_thenE)
  have f: "tokensSold s1 = tokensSold s4 \<and> (graduated s1 \<or> FAIRRaised s1 = FAIRRaised s4)
         \<and> platformFeePercent s1 = platformFeePercent s4 \<and> launchTime s1 = launchTime s4
         \<and> (\<exists>es. emitted s1 = emitted s4 @ es)"
    using g by (auto dest: executeGraduation_frame split: if_split_asm)
  have h: "msg_sender c \<noteq> self s4 \<longrightarrow>
             balances (token s1) (msg_sender c) = balances (token s4) (msg_sender c)"
    using g by (auto dest: executeGraduation_holdings split: if_split_asm)
  from purchase_Inr [OF p] ng f h s' show ?thesis
    by (clarsimp simp: frame mint_Inr getCurrentPrice_entry)
qed

lemma scaled_quotient_fits:
  fixes x t :: nat
  assumes "x \<le> UINT256_MAX" and "10000 \<le> t"
  shows "(x div t - p) * 10000 \<le> UINT256_MAX"
proof -
  have "x div t \<le> x div 10000"
    using assms(2) by (intro div_le_mono2) simp_all
  then have "(x div t) * 10000 \<le> (x div 10000) * 10000"
    by (rule mult_le_mono1)
  also have "\<dots> \<le> x" by simp
  finally have "(x div t) * 10000 \<le> UINT256_MAX"
    using assms(1) by simp
  moreover have "(x div t - p) * 10000 \<le> (x div t) * 10000"
    by (rule mult_le_mono1) simp
  ultimately show ?thesis by simp
qed

lemma previewBuy_of_buy:
  assumes "buyTokens c m s = Inr s'" and view: "msg_value c0 = 0"
  shows "\<exists>tokensOut newPrice priceImpact platformFee buyAmount.
           previewBuy c0 s (msg_value c) = Inr (tokensOut, newPrice, priceImpact, platformFee)
         \<and> tokensSold s' = tokensSold s + tokensOut
         \<and> (msg_sender c \<noteq> self s \<longrightarrow>
              balances (token s') (msg_sender c)
                = unchecked_add (balances (token s) (msg_sender c)) tokensOut)
         \<and> TokensPurchased (msg_sender c) buyAmount tokensOut newPrice \<in> set (emitted s')"
proof -
  let ?R = "VIRTUAL_FAIR_RESERVES + FAIRRaised s"
  let ?T = "VIRTUAL_TOKEN_RESERVES - tokensSold s"
  from buyTokens_amounts [OF assms(1)] obtain n platformFee buyAmount tokensOut newPrice L where
    pre: "\<not> graduated s" "0 < msg_value c"
    and fee: "checked_mul (msg_value c) (platformFeePercent s) = Inr n"
      "checked_div n 10000 = Inr platformFee"
      "checked_sub (msg_value c) platformFee = Inr buyAmount" "0 < buyAmount"
    and out: "calculateTokensOut s buyAmount = Inr tokensOut" "0 < tokensOut"
      "tokensSold s + tokensOut \<le> GRADUATION_SUPPLY"
    and price: "getCurrentPrice (s\<lparr>tokensSold := tokensSold s + tokensOut,
                                   FAIRRaised := FAIRRaised s + buyAmount\<rparr>) = Inr newPrice"
    and L: "mint (self s) (msg_sender c) tokensOut (token s) = Inr L"
    and s': "tokensSold s' = tokensSold s + tokensOut"
    and held: "msg_sender c \<noteq> self s \<longrightarrow>
                 balances (token s') (msg_sender c) = balances L (msg_sender c)"
    and event: "TokensPurchased (msg_sender c) buyAmount tokensOut newPrice \<in> set (emitted s')"
    by blast
  from L have minted:
    "balances L (msg_sender c) = unchecked_add (balances (token s) (msg_sender c)) tokensOut"
    by (auto simp: mint_Inr)
  from out(1) have R: "?R + buyAmount \<le> UINT256_MAX"
    by (simp add: calculateTokensOut_Inr)
  from price have below: "tokensSold s + tokensOut < VIRTUAL_TOKEN_RESERVES"
    and X: "(?R + buyAmount) * 10 ^ 18 \<le> UINT256_MAX"
    and newPrice: "newPrice = (?R + buyAmount) * 10 ^ 18 div (?T - tokensOut)"
    by (simp_all add: getCurrentPrice_Inr add.assoc)
  let ?cur = "?R * 10 ^ 18 div ?T"
  have "?R * 10 ^ 18 \<le> (?R + buyAmount) * 10 ^ 18"
    by (rule mult_le_mono1) simp
  with X have cur_fits: "?R * 10 ^ 18 \<le> UINT256_MAX" by simp
  have cur: "getCurrentPrice s = Inr ?cur"
    using below cur_fits by (simp add: getCurrentPrice_Inr)
  have "?T \<le> VIRTUAL_FAIR_RESERVES * 10 ^ 18"
    by (simp add: VIRTUAL_TOKEN_RESERVES_def VIRTUAL_FAIR_RESERVES_def ether_def)
  also have "\<dots> \<le> ?R * 10 ^ 18"
    by (rule mult_le_mono1) simp
  finally have cur_pos: "?cur \<noteq> 0"
    using below by (simp add: div_greater_zero_iff)
  have "10000 \<le> VIRTUAL_TOKEN_RESERVES - GRADUATION_SUPPLY"
    by (simp add: virtual_minus_cap)
  also have "\<dots> \<le> ?T - tokensOut"
    using out(3) by simp
  finally have big: "10000 \<le> ?T - tokensOut" .
  have impact_fits: "(newPrice - ?cur) * 10000 \<le> UINT256_MAX"
    unfolding newPrice using X big by (rule scaled_quotient_fits)
  have "GRADUATION_SUPPLY \<le> UINT256_MAX"
    by (simp add: GRADUATION_SUPPLY_def UINT256_MAX_def)
  with out(3) have total: "tokensSold s + tokensOut \<le> UINT256_MAX"
    by simp
  have steps:
    "checked_add VIRTUAL_FAIR_RESERVES (FAIRRaised s) = Inr ?R"
    "checked_add ?R buyAmount = Inr (?R + buyAmount)"
    "checked_sub VIRTUAL_TOKEN_RESERVES (tokensSold s) = Inr ?T"
    "checked_sub ?T tokensOut = Inr (?T - tokensOut)"
    "checked_mul (?R + buyAmount) (10 ^ 18) = Inr ((?R + buyAmount) * 10 ^ 18)"
    "checked_div ((?R + buyAmount) * 10 ^ 18) (?T - tokensOut) = Inr newPrice"
    "checked_add (tokensSold s) tokensOut = Inr (tokensSold s + tokensOut)"
    using R X below out(3) newPrice total
    by (simp_all add: checked_add_def checked_sub_def checked_mul_def checked_div_def)
  have impact:
    "checked_sub newPrice ?cur = Inr (newPrice - ?cur)" if "?cur < newPrice"
    using that by (simp add: checked_sub_def)
  have impact':
    "checked_mul (newPrice - ?cur) 10000 = Inr ((newPrice - ?cur) * 10000)"
    "checked_div ((newPrice - ?cur) * 10000) ?cur = Inr ((newPrice - ?cur) * 10000 div ?cur)"
    using impact_fits cur_pos by (simp_all add: checked_mul_def checked_div_def)
  have "previewBuy c0 s (msg_value c) =
          Inr (tokensOut, newPrice,
               (if ?cur < newPrice then (newPrice - ?cur) * 10000 div ?cur else 0), platformFee)"
    unfolding previewBuy_def
    using view pre fee out cur steps impact impact'
    by (simp add: and_then_def require_def)
  with s' held minted event show ?thesis by auto
qed

lemma previewSell_of_sell:
  assumes "sellTokens c n m s = Inr s'"
  shows "\<exists>FAIROut netFAIROut sellFee feeAmount update.
           previewSell c s n = Inr (FAIROut, netFAIROut, sellFee, feeAmount)
         \<and> FAIRRaised s' = FAIRRaised s - FAIROut
         \<and> tokensSold s' = tokensSold s - n
         \<and> balances (token s') (msg_sender c) = balances (token s) (msg_sender c) - n
         \<and> emitted s' = emitted s
              @ Sent (msg_sender c) netFAIROut
              # (if 0 < feeAmount then [Sent (treasury s) feeAmount] else [])
              @ [TokensSold (msg_sender c) n netFAIROut feeAmount, update]"
proof -
  from sellTokens_Inr [OF assms] obtain FAIROut sellFee k feeAmount netFAIROut L price marketCap
    where pre: "msg_value c = 0" "\<not> graduated s" "0 < n" "n \<le> tokensSold s"
    and burnt: "burnFrom (self s) (msg_sender c) n (token s) = Inr L" "token s' = L"
    and amounts: "calculateFAIROut s n = Inr FAIROut" "getCurrentSellFee c s = Inr sellFee"
      "checked_mul FAIROut sellFee = Inr k" "checked_div k 10000 = Inr feeAmount"
      "checked_sub FAIROut feeAmount = Inr netFAIROut"
    and s': "FAIRRaised s' = FAIRRaised s - FAIROut" "tokensSold s' = tokensSold s - n"
      "emitted s' = emitted s
         @ Sent (msg_sender c) netFAIROut
         # (if 0 < feeAmount then [Sent (treasury s) feeAmount] else [])
         @ [TokensSold (msg_sender c) n netFAIROut feeAmount,
            PriceUpdate (tokensSold s - n) price marketCap]"
    by blast
  have "previewSell c s n = Inr (FAIROut, netFAIROut, sellFee, feeAmount)"
    unfolding previewSell_def using pre amounts by (simp add: and_then_def require_def)
  moreover from burnt
  have "balances (token s') (msg_sender c) = balances (token s) (msg_sender c) - n"
    by (auto simp: burnFrom_Inr)
  ultimately show ?thesis using s' by blast
qed

text \<open>
  The arithmetic of a round trip. \<open>R\<close> and \<open>T\<close> are the two reserves before the buy, \<open>a\<close>
  the amount paid in, \<open>out\<close> the tokens handed out (at most what the curve computes; less
  when the cap clamps). Selling \<open>out\<close> back returns at most \<open>a + 1\<close>: both floor divisions
  round in the trader's favour, by less than one unit together as long as the reserve
  \<open>R + a\<close> does not exceed the token reserve \<open>T\<close>.
\<close>

lemma round_trip_gross:
  fixes R T a out :: nat
  assumes "0 < R" and "R + a \<le> T" and "out \<le> T - R * T div (R + a)"
  shows "(R + a) - (R + a) * (T - out) div T \<le> a + 1"
proof -
  let ?q = "R * T div (R + a)"
  let ?X = "(R + a) * (T - out)"
  have T: "0 < T" using assms(1,2) by simp
  have "?q \<le> T" by (rule curve_quotient_le)
  with assms(3) have "?q \<le> T - out" by arith
  then have 1: "(R + a) * ?q \<le> ?X" by (rule mult_le_mono2)
  have "R * T = (R + a) * ?q + R * T mod (R + a)" by simp
  moreover have "R * T mod (R + a) < R + a" using assms(1) by simp
  ultimately have "R * T < (R + a) * ?q + (R + a)" by linarith
  with 1 assms(2) have 2: "R * T < ?X + T" by linarith
  from assms(1) have "R * T = (R - 1) * T + T"
    by (cases R) simp_all
  with 2 have "(R - 1) * T \<le> ?X" by linarith
  then have "(R - 1) * T div T \<le> ?X div T" by (rule div_le_mono)
  with T have "R - 1 \<le> ?X div T" by simp
  with assms(1) show ?thesis by linarith
qed

lemma fee_at_least_one:
  fixes x f :: nat
  assumes "100 \<le> x" and "100 \<le> f"
  shows "1 \<le> x * f div 10000"
proof -
  have "100 * 100 \<le> x * f" using assms by (rule mult_le_mono)
  then have "10000 div 10000 \<le> x * f div 10000" by (intro div_le_mono) simp
  then show ?thesis by simp
qed

lemma sellTokens_amounts:
  assumes "sellTokens c n m s = Inr s'"
  shows "\<exists>FAIROut netFAIROut sellFee feeAmount update.
           \<not> graduated s
         \<and> calculateFAIROut s n = Inr FAIROut
         \<and> getCurrentSellFee c s = Inr sellFee
         \<and> feeAmount = FAIROut * sellFee div 10000
         \<and> feeAmount \<le> FAIROut
         \<and> netFAIROut = FAIROut - feeAmount
         \<and> previewSell c s n = Inr (FAIROut, netFAIROut, sellFee, feeAmount)
         \<and> emitted s' = emitted s
              @ Sent (msg_sender c) netFAIROut
              # (if 0 < feeAmount then [Sent (treasury s) feeAmount] else [])
              @ [TokensSold (msg_sender c) n netFAIROut feeAmount, update]"
proof -
  from sellTokens_Inr [OF assms] obtain FAIROut sellFee k feeAmount netFAIROut price marketCap
    where pre: "msg_value c = 0" "\<not> graduated s" "0 < n" "n \<le> tokensSold s"
    and amounts: "calculateFAIROut s n = Inr FAIROut" "getCurrentSellFee c s = Inr sellFee"
      "checked_mul FAIROut sellFee = Inr k" "checked_div k 10000 = Inr feeAmount"
      "checked_sub FAIROut feeAmount = Inr netFAIROut"
    and s': "emitted s' = emitted s
         @ Sent (msg_sender c) netFAIROut
         # (if 0 < feeAmount then [Sent (treasury s) feeAmount] else [])
         @ [TokensSold (msg_sender c) n netFAIROut feeAmount,
            PriceUpdate (tokensSold s - n) price marketCap]"
    by blast
  have p: "previewSell c s n = Inr (FAIROut, netFAIROut, sellFee, feeAmount)"
    unfolding previewSell_def using pre amounts by (simp add: and_then_def require_def)
  from amounts(3-5) have "feeAmount = FAIROut * sellFee div 10000" "feeAmount \<le> FAIROut"
    "netFAIROut = FAIROut - feeAmount"
    by (simp_all add: step_Inr)
  with pre(2) amounts(1,2) p s' show ?thesis by blast
qed

text \<open>
  A buy whose own steps succeed and that reaches the graduation threshold, with a venue
  call that reverts: the \<open>catch\<close> clause runs and the buy returns (given that the calls
  the curve makes on its token before the venue call go through: the curve and the
  router are not the zero address, the liquidity mint does not overflow the supply, the
  deadline does not overflow). After it \<open>graduated\<close> is false, \<open>tokensSold\<close> and
  \<open>FAIRRaised\<close> have the values the buy gave them, and the buyer holds the tokens the
  buy minted.
\<close>

lemma reverting_venue_keeps_the_buy:
  assumes "\<not> graduated s" and "\<not> entered s"
    and "purchase c (msg_sender c) minTokensOut
           (s\<lparr>balance := balance s + msg_value c, entered := True\<rparr>) = Inr s4"
    and "GRADUATION_THRESHOLD \<le> FAIRRaised s4"
    and "venue c = Venue_reverts"
    and "self s \<noteq> 0" and "traderJoeRouter s \<noteq> 0"
    and "totalSupply (token s4) + LIQUIDITY_TOKENS \<le> UINT256_MAX"
    and "block_timestamp c + 300 \<le> UINT256_MAX"
    and "msg_sender c \<noteq> self s"
    and "balances (token s) (msg_sender c) \<le> totalSupply (token s)"
  shows "\<exists>s' n platformFee buyAmount tokensOut.
           buyTokens c minTokensOut s = Inr s'
         \<and> \<not> graduated s'
         \<and> tokensSold s' = tokensSold s4 \<and> FAIRRaised s' = FAIRRaised s4
         \<and> balance s' = balance s4 \<and> emitted s' = emitted s4
         \<and> checked_mul (msg_value c) (platformFeePercent s) = Inr n
         \<and> checked_div n 10000 = Inr platformFee
         \<and> checked_sub (msg_value c) platformFee = Inr buyAmount
         \<and> calculateTokensOut s buyAmount = Inr tokensOut
         \<and> tokensSold s' = tokensSold s + tokensOut
         \<and> FAIRRaised s' = FAIRRaised s + buyAmount
         \<and> balances (token s') (msg_sender c) = balances (token s) (msg_sender c) + tokensOut"
proof -
  let ?s0 = "s\<lparr>balance := balance s + msg_value c, entered := True\<rparr>"
  from purchase_Inr [OF assms(3)] obtain n platformFee buyAmount tokensOut where
    fee: "checked_mul (msg_value c) (platformFeePercent s) = Inr n"
      "checked_div n 10000 = Inr platformFee"
      "checked_sub (msg_value c) platformFee = Inr buyAmount"
    and out: "calculateTokensOut s buyAmount = Inr tokensOut"
    and no_overflow: "totalSupply (token s) + tokensOut \<le> UINT256_MAX"
    and minter: "self s = minter (token s)"
    and s4: "tokensSold s4 = tokensSold s + tokensOut" "FAIRRaised s4 = FAIRRaised s + buyAmount"
      "\<not> graduated s4" "self s4 = self s" "traderJoeRouter s4 = traderJoeRouter s"
      "minter (token s4) = minter (token s)"
      "balances (token s4) (msg_sender c)
         = unchecked_add (balances (token s) (msg_sender c)) tokensOut"
    using assms(1) by (auto simp: frame)
  let ?s' = "s4\<lparr>token := (token s4)
                 \<lparr>tradingEnabled := True,
                  totalSupply := totalSupply (token s4) + LIQUIDITY_TOKENS,
                  balances := (balances (token s4))
                    (self s4 := unchecked_add (balances (token s4) (self s4)) LIQUIDITY_TOKENS),
                  allowances := (allowances (token s4))
                    (self s4 := (allowances (token s4) (self s4))
                       (traderJoeRouter s4 := LIQUIDITY_TOKENS))\<rparr>\<rparr>"
  have g: "executeGraduation c s4 = Inr ?s'"
    using assms(4-9) s4 minter
    by (subst executeGraduation_venue_fails) simp_all
  have i: "buyTokensFor_internal c (msg_sender c) minTokensOut ?s0 = Inr ?s'"
    using assms(3,4) g by (simp add: buyTokensFor_internal_def and_then_def)
  have b: "buyTokens c minTokensOut s = Inr (?s'\<lparr>entered := False\<rparr>)"
    using assms(1,2) i by (subst buyTokens_Inr) simp
  have bal: "balances (token s4) (msg_sender c) = balances (token s) (msg_sender c) + tokensOut"
    using s4(7) no_overflow assms(11) by (simp add: unchecked_add_small)
  show ?thesis
    using b fee out s4 bal assms(10) by simp
qed

section \<open>The concrete deployment, evaluated\<close>

lemmas constant_defs = ether_def GRADUATION_THRESHOLD_def GRADUATION_SUPPLY_def
  LIQUIDITY_TOKENS_def LIQUIDITY_FAIR_def VIRTUAL_FAIR_RESERVES_def VIRTUAL_TOKEN_RESERVES_def
  ANTI_DUMP_DURATION_def INITIAL_SELL_FEE_def FINAL_SELL_FEE_def UINT256_MAX_def

lemmas operation_defs = checked_add_def checked_sub_def checked_mul_def checked_div_def
  unchecked_add_def unchecked_sub_def and_then_def require_def emit_def

lemmas ledger_defs = setMinter_def enableTrading_def mint_def approve_def burnFrom_def
  ERC20_mint_def ERC20_burn_def ERC20_approve_def ERC20_spendAllowance_def
  LaunchToken_update_def ERC20_update_def LaunchToken_constructor_def

lemmas curve_defs = buyTokens_def buyTokensFor_def buyTokensFor_internal_def purchase_def
  sellTokens_def executeGraduation_def nonReentrant_def transfer_FAIR_def
  calculateTokensOut_def calculateFAIROut_def getCurrentSellFee_def getCurrentPrice_def
  getMarketCap_def state_after_def token_call_def BondingCurve_constructor_def
  router_mainnet_def router_fuji_def

lemma example_curve_eq:
  "example_curve =
     \<lparr>token = \<lparr>minter = 2000, tradingEnabled = False, totalSupply = 0,
                balances = (\<lambda>_. 0), allowances = (\<lambda>_ _. 0)\<rparr>,
      self = 2000, factory = 1000, treasury = 3000, platformFeePercent = 100,
      launchTime = 1700000000, tokensSold = 0, FAIRRaised = 0, graduated = False,
      traderJoeRouter = router_mainnet, balance = 0, entered = False, emitted = []\<rparr>"
  by (simp add: example_curve_def example_call_def token_call_def setMinter_def
      BondingCurve_constructor_def LaunchToken_constructor_def and_then_def require_def)

lemma example_after_alice_eq:
  "example_after_alice =
     \<lparr>token = \<lparr>minter = 2000, tradingEnabled = False,
                totalSupply = 1300373036305364367151789,
                balances = (\<lambda>_. 0)(4000 := 1300373036305364367151789),
                allowances = (\<lambda>_ _. 0)\<rparr>,
      self = 2000, factory = 1000, treasury = 3000, platformFeePercent = 100,
      launchTime = 1700000000, tokensSold = 1300373036305364367151789,
      FAIRRaised = 990000000000000000, graduated = False,
      traderJoeRouter = router_mainnet, balance = 990000000000000000, entered = False,
      emitted = [Sent 3000 10000000000000000,
                 TokensPurchased 4000 990000000000000000 1300373036305364367151789 762642292631,
                 PriceUpdate 1300373036305364367151789 762642292631 991719473683457678]\<rparr>"
  by (simp add: example_after_alice_def example_curve_eq example_call_def curve_defs ledger_defs
      operation_defs constant_defs Let_def)

lemma example_venue_failed_run:
  "buyTokens (example_call 4000 (10000 * ether) 1700000060 Venue_reverts) 0 example_curve =
     Inr \<lparr>token = \<lparr>minter = 2000, tradingEnabled = True,
                    totalSupply = 1000000000000000000000000000,
                    balances = (\<lambda>_. 0)(4000 := 700000000000000000000000000,
                                        2000 := 300000000000000000000000000),
                    allowances = (\<lambda>_ _. 0)
                      (2000 := (\<lambda>_. 0)(router_mainnet := 300000000000000000000000000))\<rparr>,
          self = 2000, factory = 1000, treasury = 3000, platformFeePercent = 100,
          launchTime = 1700000000, tokensSold = 700000000000000000000000000,
          FAIRRaised = 9900000000000000000000, graduated = False,
          traderJoeRouter = router_mainnet, balance = 9900000000000000000000, entered = False,
          emitted = [Sent 3000 100000000000000000000,
                     TokensPurchased 4000 9900000000000000000000 700000000000000000000000000
                       209400000000000,
                     PriceUpdate 700000000000000000000000000 209400000000000
                       146580000000000000000000]\<rparr>"
  by (simp add: example_curve_eq example_call_def curve_defs ledger_defs operation_defs
      constant_defs Let_def)

lemma example_graduated_run:
  "buyTokens (example_call 4000 (10000 * ether) 1700000060
      (Venue_returns LIQUIDITY_TOKENS LIQUIDITY_FAIR 1000)) 0 example_curve =
     Inr \<lparr>token = \<lparr>minter = 2000, tradingEnabled = True,
                    totalSupply = 1000000000000000000000000000,
                    balances = (\<lambda>_. 0)(4000 := 700000000000000000000000000,
                                        2000 := 300000000000000000000000000),
                    allowances = (\<lambda>_ _. 0)
                      (2000 := (\<lambda>_. 0)(router_mainnet := 300000000000000000000000000))\<rparr>,
          self = 2000, factory = 1000, treasury = 3000, platformFeePercent = 100,
          launchTime = 1700000000, tokensSold = 700000000000000000000000000,
          FAIRRaised = 0, graduated = True,
          traderJoeRouter = router_mainnet, balance = 0, entered = False,
          emitted = [Sent 3000 100000000000000000000,
                     TokensPurchased 4000 9900000000000000000000 700000000000000000000000000
                       209400000000000,
                     PriceUpdate 700000000000000000000000000 209400000000000
                       146580000000000000000000,
                     Sent 3000 4067000000000000000000,
                     Graduated 300000000000000000000000000 5833000000000000000000
                       4067000000000000000000 1000]\<rparr>"
  by (simp add: example_curve_eq example_call_def curve_defs ledger_defs operation_defs
      constant_defs Let_def)

lemma example_curve_elsewhere_eq:
  "example_curve_elsewhere =
     \<lparr>token = \<lparr>minter = 2000, tradingEnabled = False, totalSupply = 0,
                balances = (\<lambda>_. 0), allowances = (\<lambda>_ _. 0)\<rparr>,
      self = 2000, factory = 1000, treasury = 3000, platformFeePercent = 100,
      launchTime = 1700000000, tokensSold = 0, FAIRRaised = 0, graduated = False,
      traderJoeRouter = router_mainnet, balance = 0, entered = False, emitted = []\<rparr>"
  by (simp add: example_curve_elsewhere_def example_call_def token_call_def setMinter_def
      BondingCurve_constructor_def LaunchToken_constructor_def and_then_def require_def)

lemma example_without_venue_run:
  "buyTokens example_alice_without_venue 0 example_curve_elsewhere = Inl Return_data_not_decoded"
  by (simp add: example_curve_elsewhere_eq example_alice_without_venue_def example_call_def
      curve_defs ledger_defs operation_defs constant_defs Let_def)

lemma example_venue_failed_fields:
  "\<not> graduated example_venue_failed"
  "tokensSold example_venue_failed = 700000000000000000000000000"
  "FAIRRaised example_venue_failed = 9900000000000000000000"
  "balances (token example_venue_failed) 4000 = 700000000000000000000000000"
  by (simp_all add: example_venue_failed_def state_after_def example_venue_failed_run)

lemma example_graduated_fields:
  "graduated example_graduated"
  "tokensSold example_graduated = 700000000000000000000000000"
  "FAIRRaised example_graduated = 0"
  by (simp_all add: example_graduated_def state_after_def example_graduated_run)

lemma example_curve_reachable: "reachable example_curve"
  unfolding example_curve_def token_call_def
  by (auto split: sum.splits intro: reachable.intros)

lemma example_sold_out_run:
  "buyTokens (example_call 4000 8060606060606060606060 1700000060 Venue_reverts) 0 example_curve =
     Inr \<lparr>token = \<lparr>minter = 2000, tradingEnabled = False,
                    totalSupply = 700000000000000000000000000,
                    balances = (\<lambda>_. 0)(4000 := 700000000000000000000000000),
                    allowances = (\<lambda>_ _. 0)\<rparr>,
          self = 2000, factory = 1000, treasury = 3000, platformFeePercent = 100,
          launchTime = 1700000000, tokensSold = 700000000000000000000000000,
          FAIRRaised = 7980000000000000000000, graduated = False,
          traderJoeRouter = router_mainnet, balance = 7980000000000000000000, entered = False,
          emitted = [Sent 3000 80606060606060606060,
                     TokensPurchased 4000 7980000000000000000000 700000000000000000000000000
                       171000000000000,
                     PriceUpdate 700000000000000000000000000 171000000000000
                       119700000000000000000000]\<rparr>"
  by (simp add: example_curve_eq example_call_def curve_defs ledger_defs operation_defs
      constant_defs Let_def)

lemma example_sold_out_fields:
  "tokensSold example_sold_out = 700000000000000000000000000"
  "FAIRRaised example_sold_out = 7980000000000000000000"
  "\<not> graduated example_sold_out" "\<not> entered example_sold_out"
  "factory example_sold_out = 1000"
  by (simp_all add: example_sold_out_def state_after_def example_sold_out_run)

lemma example_before_bob_eq:
  "example_before_bob =
     \<lparr>token = \<lparr>minter = 2000, tradingEnabled = False,
                totalSupply = 1300373036305364367151789,
                balances = (\<lambda>_. 0)(4000 := 1300373036305364367151789),
                allowances = (\<lambda>_ _. 0)(5000 := (\<lambda>_. 0)(2000 := 115792089237316195423570985008687907853269984665640564039457584007913129639935))\<rparr>,
      self = 2000, factory = 1000, treasury = 3000, platformFeePercent = 100,
      launchTime = 1700000000, tokensSold = 1300373036305364367151789,
      FAIRRaised = 990000000000000000, graduated = False,
      traderJoeRouter = router_mainnet, balance = 990000000000000000, entered = False,
      emitted = [Sent 3000 10000000000000000,
                 TokensPurchased 4000 990000000000000000 1300373036305364367151789 762642292631,
                 PriceUpdate 1300373036305364367151789 762642292631 991719473683457678]\<rparr>"
  by (simp add: example_before_bob_def token_call_def example_after_alice_eq approve_def
      ERC20_approve_def UINT256_MAX_def)

lemma example_after_bob_run:
  "buyTokens example_bob_buying 0 example_before_bob =
     Inr \<lparr>token = \<lparr>minter = 2000, tradingEnabled = False,
                totalSupply = 1300373036305364368463020,
                balances = (\<lambda>_. 0)(4000 := 1300373036305364367151789, 5000 := 1311231),
                allowances = (\<lambda>_ _. 0)(5000 := (\<lambda>_. 0)(2000 := 115792089237316195423570985008687907853269984665640564039457584007913129639935))\<rparr>,
      self = 2000, factory = 1000, treasury = 3000, platformFeePercent = 100,
      launchTime = 1700000000, tokensSold = 1300373036305364368463020,
      FAIRRaised = 990000000000000001, graduated = False,
      traderJoeRouter = router_mainnet, balance = 990000000000000001, entered = False,
      emitted = [Sent 3000 10000000000000000,
                 TokensPurchased 4000 990000000000000000 1300373036305364367151789 762642292631,
                 PriceUpdate 1300373036305364367151789 762642292631 991719473683457678,
                 TokensPurchased 5000 1 1311231 762642292631,
                 PriceUpdate 1300373036305364368463020 762642292631 991719473683457679]\<rparr>"
  by (simp add: example_before_bob_eq example_bob_buying_def example_call_def curve_defs
      ledger_defs operation_defs constant_defs Let_def)

lemma example_after_bob_eq:
  "example_after_bob =
     \<lparr>token = \<lparr>minter = 2000, tradingEnabled = False,
                totalSupply = 1300373036305364368463020,
                balances = (\<lambda>_. 0)(4000 := 1300373036305364367151789, 5000 := 1311231),
                allowances = (\<lambda>_ _. 0)(5000 := (\<lambda>_. 0)(2000 := 115792089237316195423570985008687907853269984665640564039457584007913129639935))\<rparr>,
      self = 2000, factory = 1000, treasury = 3000, platformFeePercent = 100,
      launchTime = 1700000000, tokensSold = 1300373036305364368463020,
      FAIRRaised = 990000000000000001, graduated = False,
      traderJoeRouter = router_mainnet, balance = 990000000000000001, entered = False,
      emitted = [Sent 3000 10000000000000000,
                 TokensPurchased 4000 990000000000000000 1300373036305364367151789 762642292631,
                 PriceUpdate 1300373036305364367151789 762642292631 991719473683457678,
                 TokensPurchased 5000 1 1311231 762642292631,
                 PriceUpdate 1300373036305364368463020 762642292631 991719473683457679]\<rparr>"
  by (simp add: example_after_bob_def state_after_def example_after_bob_run)

lemma example_after_sale_run:
  "sellTokens example_bob_selling 1311231 0 example_after_bob =
     Inr \<lparr>token = \<lparr>minter = 2000, tradingEnabled = False,
                totalSupply = 1300373036305364367151789,
                balances = (\<lambda>_. 0)(4000 := 1300373036305364367151789, 5000 := 0),
                allowances = (\<lambda>_ _. 0)(5000 := (\<lambda>_. 0)(2000 := 115792089237316195423570985008687907853269984665640564039457584007913129639935))\<rparr>,
      self = 2000, factory = 1000, treasury = 3000, platformFeePercent = 100,
      launchTime = 1700000000, tokensSold = 1300373036305364367151789,
      FAIRRaised = 989999999999999999, graduated = False,
      traderJoeRouter = router_mainnet, balance = 989999999999999999, entered = False,
      emitted = [Sent 3000 10000000000000000,
                 TokensPurchased 4000 990000000000000000 1300373036305364367151789 762642292631,
                 PriceUpdate 1300373036305364367151789 762642292631 991719473683457678,
                 TokensPurchased 5000 1 1311231 762642292631,
                 PriceUpdate 1300373036305364368463020 762642292631 991719473683457679,
                 Sent 5000 2,
                 TokensSold 5000 1311231 2 0,
                 PriceUpdate 1300373036305364367151789 762642292631 991719473683457678]\<rparr>"
  by (simp add: example_after_bob_eq example_bob_selling_def example_call_def curve_defs
      ledger_defs operation_defs constant_defs Let_def)

lemma example_after_sale_fields:
  "FAIRRaised example_after_sale = 989999999999999999"
  "tokensSold example_after_sale = 1300373036305364367151789"
  "emitted example_after_sale = emitted example_after_bob
     @ [Sent 5000 2, TokensSold 5000 1311231 2 0,
        PriceUpdate 1300373036305364367151789 762642292631 991719473683457678]"
  unfolding example_after_sale_def state_after_def example_after_sale_run
  by (simp_all add: example_after_bob_eq)

lemma example_after_bob_one_run:
  "buyTokens example_bob_buying_one 0 example_before_bob =
     Inr \<lparr>token = \<lparr>minter = 2000, tradingEnabled = False,
                totalSupply = 2596244623937899926570860,
                balances = (\<lambda>_. 0)(4000 := 1300373036305364367151789,
                                    5000 := 1295871587632535559419071),
                allowances = (\<lambda>_ _. 0)(5000 := (\<lambda>_. 0)(2000 := 115792089237316195423570985008687907853269984665640564039457584007913129639935))\<rparr>,
      self = 2000, factory = 1000, treasury = 3000, platformFeePercent = 100,
      launchTime = 1700000000, tokensSold = 2596244623937899926570860,
      FAIRRaised = 1980000000000000000, graduated = False,
      traderJoeRouter = router_mainnet, balance = 1980000000000000000, entered = False,
      emitted = [Sent 3000 10000000000000000,
                 TokensPurchased 4000 990000000000000000 1300373036305364367151789 762642292631,
                 PriceUpdate 1300373036305364367151789 762642292631 991719473683457678,
                 Sent 3000 10000000000000000,
                 TokensPurchased 5000 990000000000000000 1295871587632535559419071 765289170526,
                 PriceUpdate 2596244623937899926570860 765289170526 1986877894736022238]\<rparr>"
  by (simp add: example_before_bob_eq example_bob_buying_one_def example_call_def curve_defs
      ledger_defs operation_defs constant_defs Let_def)

lemma example_after_bob_one_eq:
  "example_after_bob_one =
     \<lparr>token = \<lparr>minter = 2000, tradingEnabled = False,
                totalSupply = 2596244623937899926570860,
                balances = (\<lambda>_. 0)(4000 := 1300373036305364367151789,
                                    5000 := 1295871587632535559419071),
                allowances = (\<lambda>_ _. 0)(5000 := (\<lambda>_. 0)(2000 := 115792089237316195423570985008687907853269984665640564039457584007913129639935))\<rparr>,
      self = 2000, factory = 1000, treasury = 3000, platformFeePercent = 100,
      launchTime = 1700000000, tokensSold = 2596244623937899926570860,
      FAIRRaised = 1980000000000000000, graduated = False,
      traderJoeRouter = router_mainnet, balance = 1980000000000000000, entered = False,
      emitted = [Sent 3000 10000000000000000,
                 TokensPurchased 4000 990000000000000000 1300373036305364367151789 762642292631,
                 PriceUpdate 1300373036305364367151789 762642292631 991719473683457678,
                 Sent 3000 10000000000000000,
                 TokensPurchased 5000 990000000000000000 1295871587632535559419071 765289170526,
                 PriceUpdate 2596244623937899926570860 765289170526 1986877894736022238]\<rparr>"
  by (simp add: example_after_bob_one_def state_after_def example_after_bob_one_run)

lemma example_after_sale_one_run:
  "sellTokens example_bob_selling 1295871587632535559419071 0 example_after_bob_one =
     Inr \<lparr>token = \<lparr>minter = 2000, tradingEnabled = False,
                totalSupply = 1300373036305364367151789,
                balances = (\<lambda>_. 0)(4000 := 1300373036305364367151789, 5000 := 0),
                allowances = (\<lambda>_ _. 0)(5000 := (\<lambda>_. 0)(2000 := 115792089237316195423570985008687907853269984665640564039457584007913129639935))\<rparr>,
      self = 2000, factory = 1000, treasury = 3000, platformFeePercent = 100,
      launchTime = 1700000000, tokensSold = 1300373036305364367151789,
      FAIRRaised = 989999999999999999, graduated = False,
      traderJoeRouter = router_mainnet, balance = 989999999999999999, entered = False,
      emitted = [Sent 3000 10000000000000000,
                 TokensPurchased 4000 990000000000000000 1300373036305364367151789 762642292631,
                 PriceUpdate 1300373036305364367151789 762642292631 991719473683457678,
                 Sent 3000 10000000000000000,
                 TokensPurchased 5000 990000000000000000 1295871587632535559419071 765289170526,
                 PriceUpdate 2596244623937899926570860 765289170526 1986877894736022238,
                 Sent 5000 980100000000000001,
                 Sent 3000 9900000000000000,
                 TokensSold 5000 1295871587632535559419071 980100000000000001 9900000000000000,
                 PriceUpdate 1300373036305364367151789 762642292631 991719473683457678]\<rparr>"
  by (simp add: example_after_bob_one_eq example_bob_selling_def example_call_def curve_defs
      ledger_defs operation_defs constant_defs Let_def)

lemma example_runs:
  "buyTokens (example_call 4000 ether 1700000060 Venue_reverts) 0 example_curve
     = Inr example_after_alice"
  "buyTokens example_bob_buying 0 example_before_bob = Inr example_after_bob"
  "sellTokens example_bob_selling 1311231 0 example_after_bob = Inr example_after_sale"
  "buyTokens example_bob_buying_one 0 example_before_bob = Inr example_after_bob_one"
  "sellTokens example_bob_selling 1295871587632535559419071 0 example_after_bob_one
     = Inr example_after_sale_one"
proof -
  show "buyTokens (example_call 4000 ether 1700000060 Venue_reverts) 0 example_curve
     = Inr example_after_alice"
    by (simp add: example_after_alice_eq example_curve_eq example_call_def curve_defs ledger_defs
        operation_defs constant_defs Let_def)
  show "buyTokens example_bob_buying 0 example_before_bob = Inr example_after_bob"
    by (simp add: example_after_bob_def state_after_def example_after_bob_run)
  show "sellTokens example_bob_selling 1311231 0 example_after_bob = Inr example_after_sale"
    by (simp add: example_after_sale_def state_after_def example_after_sale_run)
  show "buyTokens example_bob_buying_one 0 example_before_bob = Inr example_after_bob_one"
    by (simp add: example_after_bob_one_def state_after_def example_after_bob_one_run)
  show "sellTokens example_bob_selling 1295871587632535559419071 0 example_after_bob_one
     = Inr example_after_sale_one"
    by (simp add: example_after_sale_one_def state_after_def example_after_sale_one_run)
qed

lemma example_sold:
  "tokensSold example_before_bob = 1300373036305364367151789"
  "FAIRRaised example_before_bob = 990000000000000000"
  "tokensSold example_after_bob = 1300373036305364368463020"
  "tokensSold example_after_bob_one = 2596244623937899926570860"
  "msg_value example_bob_buying = 1"
  "msg_value example_bob_buying_one = 1000000000000000000"
  "msg_sender example_bob_selling = 5000"
  by (simp_all add: example_before_bob_eq example_after_bob_eq example_after_bob_one_eq
      example_bob_buying_def example_bob_buying_one_def example_bob_selling_def example_call_def
      ether_def)

lemma example_after_sale_one_emitted:
  "emitted example_after_sale_one = emitted example_after_bob_one
     @ [Sent 5000 980100000000000001, Sent 3000 9900000000000000,
        TokensSold 5000 1295871587632535559419071 980100000000000001 9900000000000000,
        PriceUpdate 1300373036305364367151789 762642292631 991719473683457678]"
  unfolding example_after_sale_one_def state_after_def example_after_sale_one_run
  by (simp add: example_after_bob_one_eq)

lemma example_previews:
  "previewBuy (example_call 4000 0 1700000060 Venue_reverts) example_curve ether
     = Inr (1300373036305364367151789, 762642292631, 34, 10000000000000000)"
  "previewSell example_bob_selling example_after_bob 1311231 = Inr (2, 2, 100, 0)"
  "previewSell example_bob_selling example_after_bob_one 1295871587632535559419071
     = Inr (990000000000000001, 980100000000000001, 100, 9900000000000000)"
  by (simp_all add: previewBuy_def previewSell_def example_curve_eq example_after_bob_eq
      example_after_bob_one_eq example_bob_selling_def example_call_def getCurrentPrice_def
      calculateTokensOut_def calculateFAIROut_def getCurrentSellFee_def operation_defs
      constant_defs)

text \<open>
  Alice's tokens are all the tokens sold. The curve values them at one base unit more
  than it has raised, so no call makes their sale return, while the preview states a
  gross and a net amount for it.
\<close>

lemma example_everything_valued:
  "calculateFAIROut example_after_alice 1300373036305364367151789 = Inr 990000000000000001"
  by (simp add: example_after_alice_eq calculateFAIROut_def operation_defs constant_defs)

lemma example_everything_never_sold:
  "sellTokens c 1300373036305364367151789 m example_after_alice \<noteq> Inr s'"
proof
  assume "sellTokens c 1300373036305364367151789 m example_after_alice = Inr s'"
  from sellTokens_Inr [OF this] obtain FAIROut where
    "calculateFAIROut example_after_alice 1300373036305364367151789 = Inr FAIROut"
    "FAIROut \<le> FAIRRaised example_after_alice"
    by blast
  then show False
    by (simp add: example_everything_valued) (simp add: example_after_alice_eq)
qed

lemma example_everything_offered:
  "previewSell example_alice_selling example_after_alice 1300373036305364367151789
     = Inr (990000000000000001, 980100000000000001, 100, 9900000000000000)"
  "sellTokens example_alice_selling 1300373036305364367151789 0 example_after_alice
     = Inl Insufficient_reserves"
  by (simp_all add: previewSell_def sellTokens_def nonReentrant_def example_after_alice_eq
      example_alice_selling_def example_call_def calculateFAIROut_def getCurrentSellFee_def
      operation_defs constant_defs)

section \<open>The claims\<close>

text \<open>
  C1. \<open>tokensSold\<close> never exceeds \<open>GRADUATION_SUPPLY\<close>: not in any reachable state, and
  not after any sequence of \<open>buyTokens\<close> and \<open>buyTokensFor\<close> calls run from one. The
  amount \<open>_calculateTokensOut\<close> returns is at most \<open>GRADUATION_SUPPLY - tokensSold\<close>, and
  every buy that returns leaves \<open>tokensSold \<le> GRADUATION_SUPPLY\<close>, whatever the state it
  started from.
\<close>

theorem tokensSold_never_exceeds_cap:
  "(reachable s \<longrightarrow>
      tokensSold s \<le> GRADUATION_SUPPLY \<and> tokensSold (run_buys bs s) \<le> GRADUATION_SUPPLY)
   \<and> (calculateTokensOut s FAIRAmount = Inr tokensOut \<longrightarrow>
        tokensSold s \<le> GRADUATION_SUPPLY \<and> tokensOut \<le> GRADUATION_SUPPLY - tokensSold s)
   \<and> (buyTokens c minTokensOut s = Inr s' \<longrightarrow> tokensSold s' \<le> GRADUATION_SUPPLY)
   \<and> (buyTokensFor c recipient minTokensOut s = Inr s' \<longrightarrow> tokensSold s' \<le> GRADUATION_SUPPLY)"
  using reachable_tokensSold [of s] reachable_tokensSold [OF run_buys_reachable, of s bs]
    buyTokens_tokensSold [of c minTokensOut s s']
    buyTokensFor_tokensSold [of c recipient minTokensOut s s']
  by (auto simp: calculateTokensOut_Inr)

theorem tokensSold_never_exceeds_cap_witness:
  "reachable example_curve
   \<and> run_buys [BuyTokens (example_call 4000 ether 1700000060 Venue_reverts) 0] example_curve
       = example_after_alice
   \<and> tokensSold example_after_alice = 1300373036305364367151789
   \<and> tokensSold example_after_alice \<le> GRADUATION_SUPPLY
   \<and> calculateTokensOut example_curve (9900 * ether) = Inr GRADUATION_SUPPLY
   \<and> buyTokens (example_call 4000 (10000 * ether) 1700000060 Venue_reverts) 0 example_curve
       = Inr example_venue_failed
   \<and> tokensSold example_venue_failed = GRADUATION_SUPPLY"
proof -
  have r: "reachable example_curve" by (rule example_curve_reachable)
  have b: "buyTokens (example_call 4000 (10000 * ether) 1700000060 Venue_reverts) 0 example_curve
             = Inr example_venue_failed"
    by (simp add: example_venue_failed_def state_after_def example_venue_failed_run)
  have t: "tokensSold example_venue_failed = GRADUATION_SUPPLY"
    by (simp add: example_venue_failed_fields GRADUATION_SUPPLY_def)
  have c: "calculateTokensOut example_curve (9900 * ether) = Inr GRADUATION_SUPPLY"
    by (simp add: example_curve_eq calculateTokensOut_def operation_defs constant_defs)
  have e: "run_buys [BuyTokens (example_call 4000 ether 1700000060 Venue_reverts) 0] example_curve
             = example_after_alice"
    by (simp add: example_after_alice_def state_after_def)
  have a: "tokensSold example_after_alice = 1300373036305364367151789"
    by (simp add: example_after_alice_eq)
  show ?thesis
    using r b t c e a
      tokensSold_never_exceeds_cap [of example_curve
        "[BuyTokens (example_call 4000 ether 1700000060 Venue_reverts) 0]"
        "9900 * ether" GRADUATION_SUPPLY
        "example_call 4000 (10000 * ether) 1700000060 Venue_reverts" 0 example_venue_failed]
    by simp
qed

text \<open>
  C2. A buy for \<open>msg.value\<close>, followed by a sale of the tokens it delivered that returns.
  As long as the FAIR reserve after the buy (570 FAIR virtual, plus \<open>FAIRRaised\<close>, plus
  the payment) does not exceed the token reserve in base units, the sale pays the
  seller at most \<open>msg.value + 1\<close>: the two floor divisions of the round trip round in
  the trader's favour, by at most one base unit. Once the gross amount of the sale is
  100 base units or more the sell fee is at least one unit and the seller gets at most
  \<open>msg.value\<close>.
\<close>

theorem round_trip_bound:
  assumes "buyTokens c minTokensOut s = Inr s2"
    and "sellTokens c' (tokensSold s2 - tokensSold s) minFAIROut s2 = Inr s3"
    and "VIRTUAL_FAIR_RESERVES + FAIRRaised s + msg_value c
           \<le> VIRTUAL_TOKEN_RESERVES - tokensSold s"
  shows "\<exists>FAIROut netFAIROut sellFee feeAmount update.
           previewSell c' s2 (tokensSold s2 - tokensSold s)
             = Inr (FAIROut, netFAIROut, sellFee, feeAmount)
         \<and> emitted s3 = emitted s2
              @ Sent (msg_sender c') netFAIROut
              # (if 0 < feeAmount then [Sent (treasury s2) feeAmount] else [])
              @ [TokensSold (msg_sender c') (tokensSold s2 - tokensSold s) netFAIROut feeAmount,
                 update]
         \<and> FAIROut \<le> msg_value c + 1
         \<and> netFAIROut \<le> msg_value c + 1
         \<and> (100 \<le> FAIROut \<longrightarrow> netFAIROut \<le> msg_value c)"
proof -
  let ?R = "VIRTUAL_FAIR_RESERVES + FAIRRaised s"
  let ?T = "VIRTUAL_TOKEN_RESERVES - tokensSold s"
  from buyTokens_amounts [OF assms(1)] obtain n platformFee buyAmount tokensOut where
    a: "checked_sub (msg_value c) platformFee = Inr buyAmount"
    and out: "calculateTokensOut s buyAmount = Inr tokensOut"
      "tokensSold s + tokensOut \<le> GRADUATION_SUPPLY"
    and s2: "tokensSold s2 = tokensSold s + tokensOut"
      "graduated s2 \<or> FAIRRaised s2 = FAIRRaised s + buyAmount"
    by blast
  from a have le: "buyAmount \<le> msg_value c"
    by (auto simp: checked_sub_Inr)
  have n: "tokensSold s2 - tokensSold s = tokensOut"
    using s2(1) by simp
  from sellTokens_amounts [OF assms(2)] n obtain FAIROut netFAIROut sellFee feeAmount update
    where ng: "\<not> graduated s2"
    and ret: "calculateFAIROut s2 tokensOut = Inr FAIROut"
    and fee: "getCurrentSellFee c' s2 = Inr sellFee" "feeAmount = FAIROut * sellFee div 10000"
      "feeAmount \<le> FAIROut" "netFAIROut = FAIROut - feeAmount"
    and p: "previewSell c' s2 tokensOut = Inr (FAIROut, netFAIROut, sellFee, feeAmount)"
    and e: "emitted s3 = emitted s2
         @ Sent (msg_sender c') netFAIROut
         # (if 0 < feeAmount then [Sent (treasury s2) feeAmount] else [])
         @ [TokensSold (msg_sender c') tokensOut netFAIROut feeAmount, update]"
    by auto
  from ng s2(2) have raised: "FAIRRaised s2 = FAIRRaised s + buyAmount" by simp
  from out(1) have t: "tokensOut \<le> ?T - ?R * ?T div (?R + buyAmount)"
    by (simp add: calculateTokensOut_Inr)
  from out(2) cap_le_virtual have sold: "tokensSold s + tokensOut \<le> VIRTUAL_TOKEN_RESERVES"
    by simp
  have R: "0 < ?R" by (simp add: VIRTUAL_FAIR_RESERVES_def ether_def)
  have RT: "?R + buyAmount \<le> ?T" using assms(3) le by simp
  have "FAIROut = (?R + buyAmount) - (?R + buyAmount) * (?T - tokensOut) div ?T"
    using ret sold by (simp add: calculateFAIROut_Inr s2(1) raised add.assoc)
  with round_trip_gross [OF R RT t] have gross: "FAIROut \<le> buyAmount + 1"
    by simp
  have net: "netFAIROut \<le> buyAmount" if "100 \<le> FAIROut"
  proof -
    from getCurrentSellFee_range [OF fee(1)] have "100 \<le> sellFee"
      by (simp add: FINAL_SELL_FEE_def)
    with that have "1 \<le> feeAmount"
      unfolding fee(2) by (rule fee_at_least_one)
    with gross fee(3,4) show ?thesis by linarith
  qed
  from gross le fee(3,4) have "FAIROut \<le> msg_value c + 1" "netFAIROut \<le> msg_value c + 1"
    by simp_all
  moreover from net le have "100 \<le> FAIROut \<longrightarrow> netFAIROut \<le> msg_value c"
    by auto
  ultimately show ?thesis
    using p e n by auto
qed

theorem round_trip_bound_witness:
  "buyTokens example_bob_buying_one 0 example_before_bob = Inr example_after_bob_one
   \<and> tokensSold example_after_bob_one - tokensSold example_before_bob
       = 1295871587632535559419071
   \<and> sellTokens example_bob_selling 1295871587632535559419071 0 example_after_bob_one
       = Inr example_after_sale_one
   \<and> previewSell example_bob_selling example_after_bob_one 1295871587632535559419071
       = Inr (990000000000000001, 980100000000000001, 100, 9900000000000000)
   \<and> msg_value example_bob_buying_one = 1000000000000000000
   \<and> emitted example_after_sale_one = emitted example_after_bob_one
       @ [Sent 5000 980100000000000001, Sent 3000 9900000000000000,
          TokensSold 5000 1295871587632535559419071 980100000000000001 9900000000000000,
          PriceUpdate 1300373036305364367151789 762642292631 991719473683457678]"
proof -
  have n: "tokensSold example_after_bob_one - tokensSold example_before_bob
             = 1295871587632535559419071"
    by (simp add: example_sold)
  have small: "VIRTUAL_FAIR_RESERVES + FAIRRaised example_before_bob
                 + msg_value example_bob_buying_one
               \<le> VIRTUAL_TOKEN_RESERVES - tokensSold example_before_bob"
    by (simp add: example_sold constant_defs)
  have sale: "sellTokens example_bob_selling
                (tokensSold example_after_bob_one - tokensSold example_before_bob) 0
                example_after_bob_one = Inr example_after_sale_one"
    unfolding n by (rule example_runs)
  from round_trip_bound [OF example_runs(4) sale small]
  have "\<exists>FAIROut netFAIROut sellFee feeAmount.
          previewSell example_bob_selling example_after_bob_one 1295871587632535559419071
            = Inr (FAIROut, netFAIROut, sellFee, feeAmount)
        \<and> (100 \<le> FAIROut \<longrightarrow> netFAIROut \<le> msg_value example_bob_buying_one)"
    unfolding n by blast
  then show ?thesis
    using n example_runs(4,5) example_previews(3) example_sold(6) example_after_sale_one_emitted
    by simp
qed

text \<open>
  Bob's round trip with one base unit: he pays 1, receives 1311231 base units of the
  token, sells them in the same block without any fee being due, and is paid 2.
\<close>

theorem round_trip_counterexample:
  "graduated example_before_bob = False
   \<and> msg_value example_bob_buying = 1
   \<and> buyTokens example_bob_buying 0 example_before_bob = Inr example_after_bob
   \<and> tokensSold example_after_bob - tokensSold example_before_bob = 1311231
   \<and> sellTokens example_bob_selling 1311231 0 example_after_bob = Inr example_after_sale
   \<and> emitted example_after_sale = emitted example_after_bob
       @ [Sent 5000 2, TokensSold 5000 1311231 2 0,
          PriceUpdate 1300373036305364367151789 762642292631 991719473683457678]
   \<and> msg_sender example_bob_selling = 5000
   \<and> msg_value example_bob_buying < 2"
  using example_runs(2,3) example_after_sale_fields(3) example_sold
  by (simp add: example_before_bob_eq)

text \<open>
  C3. A preview states what the trade delivers whenever the trade returns. If
  \<open>buyTokens\<close> returns, \<open>previewBuy\<close> for the same value, evaluated in the state before
  the buy by a call without value, returns too, and its token amount is the amount
  added to \<open>tokensSold\<close>, the amount of the \<open>TokensPurchased\<close> event, and the amount by
  which the buyer's holding in the ledger after the buy is higher (the curve itself is
  not a buyer; a graduation hands the venue an allowance over the ledger, so the
  holding is stated for a buy after which the curve has not graduated). If \<open>sellTokens\<close>
  returns, \<open>previewSell\<close> for the same token amount, in the same state and block,
  returns the gross amount taken from \<open>FAIRRaised\<close>, the net amount sent to the seller
  and the fee sent to the treasury, and the seller's holding is lower by the amount
  sold. A preview and the call it previews run the same integer computation.
\<close>

theorem previews_match_trades:
  "(buyTokens c minTokensOut s = Inr s' \<and> msg_value c0 = 0 \<longrightarrow>
      (\<exists>tokensOut newPrice priceImpact platformFee buyAmount.
          previewBuy c0 s (msg_value c) = Inr (tokensOut, newPrice, priceImpact, platformFee)
        \<and> tokensSold s' = tokensSold s + tokensOut
        \<and> TokensPurchased (msg_sender c) buyAmount tokensOut newPrice \<in> set (emitted s')
        \<and> (msg_sender c \<noteq> self s \<and> \<not> graduated s' \<longrightarrow>
             balances (token s') (msg_sender c)
               = unchecked_add (balances (token s) (msg_sender c)) tokensOut)))
   \<and> (sellTokens c' tokenAmount minFAIROut t = Inr t' \<longrightarrow>
      (\<exists>FAIROut netFAIROut sellFee feeAmount update.
          previewSell c' t tokenAmount = Inr (FAIROut, netFAIROut, sellFee, feeAmount)
        \<and> FAIRRaised t' = FAIRRaised t - FAIROut
        \<and> tokensSold t' = tokensSold t - tokenAmount
        \<and> balances (token t') (msg_sender c')
              = balances (token t) (msg_sender c') - tokenAmount
        \<and> emitted t' = emitted t
             @ Sent (msg_sender c') netFAIROut
             # (if 0 < feeAmount then [Sent (treasury t) feeAmount] else [])
             @ [TokensSold (msg_sender c') tokenAmount netFAIROut feeAmount, update]))"
proof (intro conjI impI)
  assume "buyTokens c minTokensOut s = Inr s' \<and> msg_value c0 = 0"
  then have "buyTokens c minTokensOut s = Inr s'" "msg_value c0 = 0"
    by simp_all
  from previewBuy_of_buy [OF this]
  show "\<exists>tokensOut newPrice priceImpact platformFee buyAmount.
          previewBuy c0 s (msg_value c) = Inr (tokensOut, newPrice, priceImpact, platformFee)
        \<and> tokensSold s' = tokensSold s + tokensOut
        \<and> TokensPurchased (msg_sender c) buyAmount tokensOut newPrice \<in> set (emitted s')
        \<and> (msg_sender c \<noteq> self s \<and> \<not> graduated s' \<longrightarrow>
             balances (token s') (msg_sender c)
               = unchecked_add (balances (token s) (msg_sender c)) tokensOut)"
    by blast
next
  assume "sellTokens c' tokenAmount minFAIROut t = Inr t'"
  from previewSell_of_sell [OF this]
  show "\<exists>FAIROut netFAIROut sellFee feeAmount update.
          previewSell c' t tokenAmount = Inr (FAIROut, netFAIROut, sellFee, feeAmount)
        \<and> FAIRRaised t' = FAIRRaised t - FAIROut
        \<and> tokensSold t' = tokensSold t - tokenAmount
        \<and> balances (token t') (msg_sender c')
              = balances (token t) (msg_sender c') - tokenAmount
        \<and> emitted t' = emitted t
             @ Sent (msg_sender c') netFAIROut
             # (if 0 < feeAmount then [Sent (treasury t) feeAmount] else [])
             @ [TokensSold (msg_sender c') tokenAmount netFAIROut feeAmount, update]"
    by blast
qed

theorem previews_match_trades_witness:
  "buyTokens (example_call 4000 ether 1700000060 Venue_reverts) 0 example_curve
     = Inr example_after_alice
   \<and> msg_value example_alice_selling = 0
   \<and> previewBuy example_alice_selling example_curve
         (msg_value (example_call 4000 ether 1700000060 Venue_reverts))
       = Inr (1300373036305364367151789, 762642292631, 34, 10000000000000000)
   \<and> tokensSold example_after_alice = tokensSold example_curve + 1300373036305364367151789
   \<and> TokensPurchased 4000 990000000000000000 1300373036305364367151789 762642292631
       \<in> set (emitted example_after_alice)
   \<and> balances (token example_after_alice) 4000
       = balances (token example_curve) 4000 + 1300373036305364367151789
   \<and> sellTokens example_bob_selling 1295871587632535559419071 0 example_after_bob_one
       = Inr example_after_sale_one
   \<and> previewSell example_bob_selling example_after_bob_one 1295871587632535559419071
       = Inr (990000000000000001, 980100000000000001, 100, 9900000000000000)
   \<and> balances (token example_after_sale_one) 5000
       = balances (token example_after_bob_one) 5000 - 1295871587632535559419071
   \<and> emitted example_after_sale_one = emitted example_after_bob_one
       @ [Sent 5000 980100000000000001, Sent 3000 9900000000000000,
          TokensSold 5000 1295871587632535559419071 980100000000000001 9900000000000000,
          PriceUpdate 1300373036305364367151789 762642292631 991719473683457678]"
proof -
  let ?buy = "example_call 4000 ether 1700000060 Venue_reverts"
  have v: "msg_value ?buy = ether" "msg_sender ?buy = 4000" "msg_value example_alice_selling = 0"
    "msg_sender example_bob_selling = 5000"
    by (simp_all add: example_call_def example_alice_selling_def example_bob_selling_def)
  have p: "previewBuy example_alice_selling example_curve ether
             = Inr (1300373036305364367151789, 762642292631, 34, 10000000000000000)"
    by (simp add: previewBuy_def example_curve_eq example_alice_selling_def example_call_def
        getCurrentPrice_def calculateTokensOut_def operation_defs constant_defs)
  have a: "tokensSold example_after_alice = tokensSold example_curve + 1300373036305364367151789"
    "TokensPurchased 4000 990000000000000000 1300373036305364367151789 762642292631
       \<in> set (emitted example_after_alice)"
    "balances (token example_after_alice) 4000
       = balances (token example_curve) 4000 + 1300373036305364367151789"
    by (simp_all add: example_after_alice_eq example_curve_eq)
  from previews_match_trades [of ?buy 0 example_curve example_after_alice example_alice_selling
      example_bob_selling 1295871587632535559419071 0 example_after_bob_one
      example_after_sale_one]
  have "balances (token example_after_sale_one) 5000
          = balances (token example_after_bob_one) 5000 - 1295871587632535559419071"
    using example_runs(1,5) v by auto
  then show ?thesis
    using example_runs(1,5) example_previews(3) example_after_sale_one_emitted v p a
    by simp
qed

text \<open>
  A preview is the curve computation and nothing else: it knows no caller and applies
  none of the conditions under which the trade is carried out. An hour after her buy
  Alice previews the sale of everything she holds, which is everything the curve has
  sold: the preview states 0.990000000000000001 FAIR gross and 0.980100000000000001
  FAIR net, one base unit more than the curve has raised, and the sale itself fails
  with "Insufficient reserves".
\<close>

theorem previews_counterexample:
  "graduated example_after_alice = False
   \<and> msg_sender example_alice_selling = 4000
   \<and> msg_value example_alice_selling = 0
   \<and> balances (token example_after_alice) 4000 = 1300373036305364367151789
   \<and> tokensSold example_after_alice = 1300373036305364367151789
   \<and> FAIRRaised example_after_alice = 990000000000000000
   \<and> previewSell example_alice_selling example_after_alice 1300373036305364367151789
       = Inr (990000000000000001, 980100000000000001, 100, 9900000000000000)
   \<and> sellTokens example_alice_selling 1300373036305364367151789 0 example_after_alice
       = Inl Insufficient_reserves"
  using example_everything_offered
  by (simp add: example_after_alice_eq example_alice_selling_def example_call_def)

text \<open>
  C4. For the constants to agree with the end point of the curve, the constant-product
  relation evaluated with the virtual reserves at \<open>tokensSold = GRADUATION_SUPPLY\<close> has to
  give a reserve of exactly \<open>GRADUATION_THRESHOLD\<close>, 8050 FAIR. With the constants of the
  code it gives 7980 FAIR, 70 FAIR less: \<open>_calculateTokensOut\<close> hands out the whole curve
  supply for 7980 FAIR and \<open>_calculateFAIROut\<close> pays 7980 FAIR back for it. A curve that
  is bought out at the curve price is therefore complete without having graduated:
  further buys fail with "Curve complete" and \<open>forceGraduation\<close> with "Threshold not met".
\<close>

theorem curve_endpoint_below_threshold:
  "VIRTUAL_FAIR_RESERVES * VIRTUAL_TOKEN_RESERVES div (VIRTUAL_TOKEN_RESERVES - GRADUATION_SUPPLY)
     - VIRTUAL_FAIR_RESERVES = 7980 * ether
   \<and> 7980 * ether < GRADUATION_THRESHOLD
   \<and> calculateTokensOut example_curve (7980 * ether) = Inr GRADUATION_SUPPLY
   \<and> tokensSold example_sold_out = GRADUATION_SUPPLY
   \<and> FAIRRaised example_sold_out = 7980 * ether
   \<and> calculateFAIROut example_sold_out GRADUATION_SUPPLY = Inr (7980 * ether)
   \<and> graduated example_sold_out = False
   \<and> buyTokens (example_call 5000 ether 1700003600 Venue_reverts) 0 example_sold_out
       = Inl Curve_complete
   \<and> forceGraduation (example_call 1000 0 1700003600 Venue_reverts) example_sold_out
       = Inl Threshold_not_met"
proof -
  have "calculateTokensOut example_curve (7980 * ether) = Inr GRADUATION_SUPPLY"
    by (simp add: example_curve_eq calculateTokensOut_def operation_defs constant_defs)
  moreover have "calculateFAIROut example_sold_out GRADUATION_SUPPLY = Inr (7980 * ether)"
    by (simp add: calculateFAIROut_def example_sold_out_fields operation_defs constant_defs)
  moreover have "buyTokens (example_call 5000 ether 1700003600 Venue_reverts) 0 example_sold_out
       = Inl Curve_complete"
    by (simp add: buyTokens_def nonReentrant_def buyTokensFor_internal_def purchase_def
        example_sold_out_fields example_call_def require_def and_then_def constant_defs)
  moreover have "forceGraduation (example_call 1000 0 1700003600 Venue_reverts) example_sold_out
       = Inl Threshold_not_met"
    by (simp add: forceGraduation_def example_sold_out_fields example_call_def require_def
        and_then_def constant_defs)
  ultimately show ?thesis
    by (simp add: example_sold_out_fields constant_defs)
qed

text \<open>
  C5. On a curve with nothing sold and nothing raised and a fee of 100 basis points, a buy
  of 1 FAIR that returns delivers 1300373036305364367151789 base units, about 1,300,373
  tokens: 0.99 FAIR reach the curve, and \<open>_calculateTokensOut\<close> computes this amount for
  them. That is 1.12 percent below 1,315,000 tokens: within 1.2 percent, not within
  1 percent.
\<close>

theorem first_buy_of_one_FAIR:
  assumes "tokensSold s = 0" and "FAIRRaised s = 0" and "platformFeePercent s = 100"
    and "msg_value c = ether"
    and "buyTokens c minTokensOut s = Inr s'"
  shows "calculateTokensOut s (99 * 10 ^ 16) = Inr 1300373036305364367151789
       \<and> tokensSold s' = 1300373036305364367151789
       \<and> (\<exists>L. mint (self s) (msg_sender c) 1300373036305364367151789 (token s) = Inr L)
       \<and> tokensSold s' \<le> 1315000 * 10 ^ 18
       \<and> 1000 * (1315000 * 10 ^ 18 - tokensSold s') \<le> 12 * (1315000 * 10 ^ 18)
       \<and> 100 * (1315000 * 10 ^ 18 - tokensSold s') > 1315000 * 10 ^ 18"
proof -
  have out: "calculateTokensOut s (99 * 10 ^ 16) = Inr 1300373036305364367151789"
    using assms(1,2) by (simp add: calculateTokensOut_def operation_defs constant_defs)
  from buyTokens_amounts [OF assms(5)] obtain n platformFee buyAmount tokensOut L where
    a: "checked_mul (msg_value c) (platformFeePercent s) = Inr n"
      "checked_div n 10000 = Inr platformFee"
      "checked_sub (msg_value c) platformFee = Inr buyAmount"
    and t: "calculateTokensOut s buyAmount = Inr tokensOut"
      "tokensSold s' = tokensSold s + tokensOut"
    and m: "mint (self s) (msg_sender c) tokensOut (token s) = Inr L"
    by blast
  from a assms(3,4) have "buyAmount = 99 * 10 ^ 16"
    by (simp add: step_Inr ether_def)
  with t m out assms(1) show ?thesis by auto
qed

theorem first_buy_of_one_FAIR_witness:
  "tokensSold example_curve = 0 \<and> FAIRRaised example_curve = 0
   \<and> platformFeePercent example_curve = 100
   \<and> buyTokens (example_call 4000 ether 1700000060 Venue_reverts) 0 example_curve
       = Inr example_after_alice
   \<and> tokensSold example_after_alice = 1300373036305364367151789"
proof -
  have run: "buyTokens (example_call 4000 ether 1700000060 Venue_reverts) 0 example_curve
               = Inr example_after_alice"
    by (simp add: example_after_alice_eq example_curve_eq example_call_def curve_defs ledger_defs
        operation_defs constant_defs Let_def)
  show ?thesis
    using run first_buy_of_one_FAIR [of example_curve
        "example_call 4000 ether 1700000060 Venue_reverts" 0 example_after_alice]
    by (simp add: example_curve_eq example_call_def)
qed

theorem first_buy_of_one_FAIR_counterexample:
  "tokensSold example_curve = 0 \<and> FAIRRaised example_curve = 0
   \<and> platformFeePercent example_curve = 100
   \<and> buyTokens (example_call 4000 ether 1700000060 Venue_reverts) 0 example_curve
       = Inr example_after_alice
   \<and> tokensSold example_after_alice - tokensSold example_curve < 1315000 * 10 ^ 18
   \<and> 1315000 * 10 ^ 18
       < 100 * (1315000 * 10 ^ 18 - (tokensSold example_after_alice - tokensSold example_curve))"
proof -
  have "buyTokens (example_call 4000 ether 1700000060 Venue_reverts) 0 example_curve
               = Inr example_after_alice"
    by (simp add: example_after_alice_eq example_curve_eq example_call_def curve_defs ledger_defs
        operation_defs constant_defs Let_def)
  then show ?thesis
    by (simp add: example_after_alice_eq example_curve_eq)
qed

text \<open>
  C6. For a block time not before the launch (and a launch time that leaves room for the
  15 minutes below \<open>2^256\<close>), \<open>getCurrentSellFee\<close> returns a fee that depends on the
  elapsed time only: equal elapsed times give equal fees, a longer elapsed time never a
  higher fee. Below 900 seconds the fee is \<open>2000 - 1900 * elapsed / 900\<close> (integer
  division), which is 2000 at the launch; from 900 seconds on it is 100. It always lies
  between 100 and 2000.
\<close>

theorem getCurrentSellFee_decay:
  assumes "launchTime s \<le> block_timestamp c"
    and "launchTime s + ANTI_DUMP_DURATION \<le> UINT256_MAX"
    and "launchTime s' \<le> block_timestamp c'"
    and "launchTime s' + ANTI_DUMP_DURATION \<le> UINT256_MAX"
  shows "\<exists>fee fee'.
           getCurrentSellFee c s = Inr fee \<and> getCurrentSellFee c' s' = Inr fee'
         \<and> (block_timestamp c - launchTime s = block_timestamp c' - launchTime s' \<longrightarrow> fee = fee')
         \<and> (block_timestamp c - launchTime s \<le> block_timestamp c' - launchTime s' \<longrightarrow> fee' \<le> fee)
         \<and> (block_timestamp c - launchTime s < ANTI_DUMP_DURATION \<longrightarrow>
              fee = INITIAL_SELL_FEE
                    - (INITIAL_SELL_FEE - FINAL_SELL_FEE) * (block_timestamp c - launchTime s)
                        div ANTI_DUMP_DURATION)
         \<and> (block_timestamp c = launchTime s \<longrightarrow> fee = INITIAL_SELL_FEE)
         \<and> (ANTI_DUMP_DURATION \<le> block_timestamp c - launchTime s \<longrightarrow> fee = FINAL_SELL_FEE)
         \<and> FINAL_SELL_FEE \<le> fee \<and> fee \<le> INITIAL_SELL_FEE"
proof -
  let ?e = "block_timestamp c - launchTime s" and ?e' = "block_timestamp c' - launchTime s'"
  let ?f = "\<lambda>e. if 900 \<le> e then 100 else 2000 - 1900 * e div (900::nat)"
  have v: "getCurrentSellFee c s = Inr (?f ?e)"
    using getCurrentSellFee_value [OF assms(1,2)]
    by (simp add: ANTI_DUMP_DURATION_def INITIAL_SELL_FEE_def FINAL_SELL_FEE_def)
  have v': "getCurrentSellFee c' s' = Inr (?f ?e')"
    using getCurrentSellFee_value [OF assms(3,4)]
    by (simp add: ANTI_DUMP_DURATION_def INITIAL_SELL_FEE_def FINAL_SELL_FEE_def)
  have small: "1900 * e div 900 \<le> 1900" if "e < 900" for e :: nat
    using that by simp
  have mono: "?f e2 \<le> ?f e1" if "e1 \<le> e2" for e1 e2 :: nat
  proof (cases "900 \<le> e2")
    case True
    then show ?thesis using small [of e1] by auto
  next
    case False
    with that have "1900 * e1 div 900 \<le> 1900 * e2 div 900"
      by (intro div_le_mono mult_le_mono2)
    with False that show ?thesis by auto
  qed
  have range: "100 \<le> ?f e \<and> ?f e \<le> 2000" for e :: nat
    using small [of e] by auto
  show ?thesis
    using v v' mono [of ?e ?e'] range [of ?e]
    by (auto simp: ANTI_DUMP_DURATION_def INITIAL_SELL_FEE_def FINAL_SELL_FEE_def)
qed

theorem getCurrentSellFee_decay_witness:
  "getCurrentSellFee (example_call 5000 0 1700000450 Venue_reverts) example_curve = Inr 1050
   \<and> getCurrentSellFee example_bob_selling example_curve = Inr 100
   \<and> (100::nat) \<le> 1050"
  using getCurrentSellFee_decay [of example_curve "example_call 5000 0 1700000450 Venue_reverts"
      example_curve example_bob_selling]
    getCurrentSellFee_decay [of example_curve example_bob_selling
      example_curve "example_call 5000 0 1700000450 Venue_reverts"]
  by (auto simp: example_curve_eq example_call_def example_bob_selling_def constant_defs)

text \<open>
  C7. The rollback of a failed graduation is the \<open>catch\<close> clause of the \<open>try\<close> statement
  (line 779, with the comment "If graduation fails, revert the graduated state"), and
  it runs only when the venue call itself reverts (\<open>reverting_venue_keeps_the_buy\<close>). A
  venue call that fails on the curve's side is not caught: when the call comes back
  with return data that does not decode to three amounts, as it does from a router
  address without code, which is what the constructor sets on every chain but the two
  Avalanche ones, a buy that reaches the graduation threshold and can fund the venue
  call does not return. The whole transaction is reverted: no tokens are minted to the
  buyer, and \<open>tokensSold\<close> and \<open>FAIRRaised\<close> are what they were before the buy.
\<close>

theorem undecodable_venue_reverts_the_buy:
  assumes "purchase c (msg_sender c) minTokensOut
             (s\<lparr>balance := balance s + msg_value c, entered := True\<rparr>) = Inr s4"
    and "GRADUATION_THRESHOLD \<le> FAIRRaised s4"
    and "LIQUIDITY_FAIR \<le> balance s4"
    and "venue c = Venue_returns_too_little"
  shows "(\<exists>e. buyTokens c minTokensOut s = Inl e)
       \<and> state_after (buyTokens c minTokensOut) s = s"
proof -
  from executeGraduation_too_little [OF assms(4,3)] obtain e
    where "executeGraduation c s4 = Inl e" ..
  with assms(1,2) have "\<exists>e. buyTokens c minTokensOut s = Inl e"
    by (simp add: buyTokens_def Let_def nonReentrant_def buyTokensFor_internal_def
        and_then_def require_def)
  then show ?thesis
    by (auto simp: state_after_def)
qed

theorem undecodable_venue_reverts_the_buy_witness:
  "traderJoeRouter example_curve_elsewhere = router_mainnet
   \<and> venue example_alice_without_venue = Venue_returns_too_little
   \<and> msg_value example_alice_without_venue = 10000 * ether
   \<and> buyTokens example_alice_without_venue 0 example_curve_elsewhere
       = Inl Return_data_not_decoded
   \<and> state_after (buyTokens example_alice_without_venue 0) example_curve_elsewhere
       = example_curve_elsewhere
   \<and> tokensSold example_curve_elsewhere = 0
   \<and> balances (token example_curve_elsewhere) 4000 = 0"
proof -
  let ?c = "example_alice_without_venue"
  let ?s0 = "example_curve_elsewhere\<lparr>balance := balance example_curve_elsewhere + msg_value ?c,
               entered := True\<rparr>"
  let ?s4 = "state_after (purchase ?c 4000 0) ?s0"
  have p: "purchase ?c (msg_sender ?c) 0 ?s0 = Inr ?s4"
    by (simp add: example_curve_elsewhere_eq example_alice_without_venue_def example_call_def
        curve_defs ledger_defs operation_defs constant_defs Let_def)
  have f: "FAIRRaised ?s4 = 9900000000000000000000" "balance ?s4 = 9900000000000000000000"
    by (simp_all add: example_curve_elsewhere_eq example_alice_without_venue_def
        example_call_def curve_defs ledger_defs operation_defs constant_defs Let_def)
  have v: "venue ?c = Venue_returns_too_little" "msg_value ?c = 10000 * ether"
    by (simp_all add: example_alice_without_venue_def example_call_def)
  have unchanged: "state_after (buyTokens ?c 0) example_curve_elsewhere = example_curve_elsewhere"
    using undecodable_venue_reverts_the_buy [of ?c 0 example_curve_elsewhere ?s4, OF p _ _ v(1)] f
    by (simp add: constant_defs)
  show ?thesis
    using unchanged v example_without_venue_run
    by (simp add: example_curve_elsewhere_eq)
qed

text \<open>
  C8. \<open>sellTokens\<close> with an amount above \<open>tokensSold\<close> always fails and changes nothing.
  Of a call that carries no value the error is "Insufficient supply sold" when the
  curve has not graduated (and the guard is free); on a graduated curve the
  \<open>notGraduated\<close> modifier runs first and the error is "Token graduated". A call that
  carries value is turned away before either, the function not being payable.
\<close>

theorem sell_above_tokensSold_fails:
  assumes "tokensSold s < tokenAmount"
  shows "sellTokens c tokenAmount minFAIROut s =
           Inl (if 0 < msg_value c then Call_value_not_accepted
                else if graduated s then Token_graduated
                else if entered s then ReentrancyGuardReentrantCall
                else Insufficient_supply_sold)
       \<and> state_after (sellTokens c tokenAmount minFAIROut) s = s"
  using assms
  by (simp add: sellTokens_def nonReentrant_def state_after_def require_def and_then_def)

theorem sell_above_tokensSold_fails_witness:
  "tokensSold example_after_alice < 1300373036305364367151790
   \<and> msg_value example_bob_selling = 0
   \<and> sellTokens example_bob_selling 1300373036305364367151790 0 example_after_alice
       = Inl Insufficient_supply_sold
   \<and> state_after (sellTokens example_bob_selling 1300373036305364367151790 0) example_after_alice
       = example_after_alice"
  using sell_above_tokensSold_fails [of example_after_alice 1300373036305364367151790
      example_bob_selling 0]
  by (simp add: example_after_alice_eq example_bob_selling_def example_call_def)

text \<open>
  On the graduated curve Bob offers more than was ever sold, in a call without value:
  the error is "Token graduated". On the curve after Alice's buy, which has not
  graduated, the same offer in a call that carries one base unit of FAIR is turned away
  for its value.
\<close>

theorem sell_above_tokensSold_counterexample:
  "graduated example_graduated
   \<and> msg_value example_bob_selling = 0
   \<and> tokensSold example_graduated < 700000001 * 10 ^ 18
   \<and> sellTokens example_bob_selling (700000001 * 10 ^ 18) 0 example_graduated
       = Inl Token_graduated
   \<and> sellTokens example_bob_selling (700000001 * 10 ^ 18) 0 example_graduated
       \<noteq> Inl Insufficient_supply_sold
   \<and> graduated example_after_alice = False
   \<and> msg_value example_bob_buying = 1
   \<and> tokensSold example_after_alice < 700000001 * 10 ^ 18
   \<and> sellTokens example_bob_buying (700000001 * 10 ^ 18) 0 example_after_alice
       = Inl Call_value_not_accepted"
  by (simp add: example_graduated_fields example_after_alice_eq sellTokens_def require_def
      and_then_def example_bob_selling_def example_bob_buying_def example_call_def)

text \<open>
  C9. A transfer of a positive amount between two non-zero accounts reaches the base
  accounting whatever \<open>tradingEnabled\<close> says when the sender or the recipient is the
  minter. Between two other accounts it reaches the base accounting when trading is
  enabled and fails with "Trading not enabled" when it is not; so, for a sender whose
  balance covers the amount, it succeeds exactly when trading is enabled. Minting and
  burning (one end is the zero address) always reach the base accounting. The public
  \<open>transfer\<close> goes through this gate.
\<close>

theorem transfer_gate:
  assumes "from \<noteq> 0" and "to \<noteq> 0" and "0 < amount"
  shows "(from = minter L \<or> to = minter L \<longrightarrow>
            LaunchToken_update L from to amount = ERC20_update L from to amount)
       \<and> (from \<noteq> minter L \<and> to \<noteq> minter L \<and> tradingEnabled L \<longrightarrow>
            LaunchToken_update L from to amount = ERC20_update L from to amount)
       \<and> (from \<noteq> minter L \<and> to \<noteq> minter L \<and> \<not> tradingEnabled L \<longrightarrow>
            LaunchToken_update L from to amount = Inl Trading_not_enabled)
       \<and> (from \<noteq> minter L \<and> to \<noteq> minter L \<and> amount \<le> balances L from \<longrightarrow>
            ((\<exists>L'. LaunchToken_update L from to amount = Inr L') \<longleftrightarrow> tradingEnabled L))
       \<and> LaunchToken_update L 0 to amount = ERC20_update L 0 to amount
       \<and> LaunchToken_update L from 0 amount = ERC20_update L from 0 amount
       \<and> transfer from to amount L = LaunchToken_update L from to amount"
  using assms
  by (auto simp: LaunchToken_update_def ERC20_update_def transfer_def ERC20_transfer_def
      require_def and_then_def)

theorem transfer_gate_witness:
  "LaunchToken_update (token example_after_alice) 4000 5000 7 = Inl Trading_not_enabled
   \<and> (\<exists>L'. LaunchToken_update (token example_after_alice\<lparr>tradingEnabled := True\<rparr>) 4000 5000 7 = Inr L')
   \<and> LaunchToken_update (token example_after_alice) 4000 2000 7
       = ERC20_update (token example_after_alice) 4000 2000 7
   \<and> ERC20_update (token example_after_alice) 4000 2000 7
       = Inr (token example_after_alice
               \<lparr>balances := (\<lambda>_. 0)(4000 := 1300373036305364367151782, 2000 := 7)\<rparr>)"
  using transfer_gate [of 4000 5000 7 "token example_after_alice"]
    transfer_gate [of 4000 5000 7 "token example_after_alice\<lparr>tradingEnabled := True\<rparr>"]
    transfer_gate [of 4000 2000 7 "token example_after_alice"]
  by (simp add: example_after_alice_eq ERC20_update_def and_then_def unchecked_add_def)

text \<open>
  C10. \<open>setMinter\<close> binds the minter once and asks nothing of its caller: whoever calls,
  the call sets the minter exactly when no minter is set (the stored minter is the zero
  address) and fails with "Minter already set" otherwise. Any account can therefore
  take the minter role of a token whose minter is still unset.
\<close>

theorem setMinter_any_caller_once:
  "setMinter caller addr L =
     (if minter L = 0 then Inr (L\<lparr>minter := addr\<rparr>) else Inl Minter_already_set)"
  by (simp add: setMinter_def require_def and_then_def)

theorem setMinter_any_caller_once_witness:
  "setMinter 4000 5000 LaunchToken_constructor = Inr (LaunchToken_constructor\<lparr>minter := 5000\<rparr>)
   \<and> setMinter 1000 2000 (LaunchToken_constructor\<lparr>minter := 5000\<rparr>) = Inl Minter_already_set"
  using setMinter_any_caller_once [of 4000 5000 LaunchToken_constructor]
    setMinter_any_caller_once [of 1000 2000 "LaunchToken_constructor\<lparr>minter := 5000\<rparr>"]
  by (simp add: LaunchToken_constructor_def)

end
